theory Spec2Isabelle
  imports Complex_Main "HOL-Library.AList"
begin

section \<open>Shared types\<close>

text \<open>
  A Go \<open>error\<close> value is modelled by its message; a run-time panic (nil map write,
  nil dereference, slice bounds) is a separate constructor, since it is not returned
  to the caller but unwinds the handler.
\<close>

datatype error = Err string | Panic string

fun errmsg :: "error \<Rightarrow> string" where
  "errmsg (Err s) = s"
| "errmsg (Panic s) = s"

section \<open>The crash-restart loop of \<open>Serve\<close>\<close>

text \<open>
  The goroutine started by \<open>Serve\<close> calls \<open>m.server.Serve(sock)\<close> again and again.
  One call of it either returns \<open>nil\<close> or returns an error; in the second case the
  loop reads the clock. The model is driven by the list of these outcomes; a crash
  carries the clock reading (in seconds) taken when it is handled. \<open>time.Since\<close> and
  the following \<open>time.Now\<close> are taken to read the same instant.
\<close>

datatype serve_outcome = ServeReturnedNil | ServeCrashed real

datatype loop_end =
    LoopBreak
  | LogFatal
  | StillServing real int

fun crash_loop :: "real \<Rightarrow> int \<Rightarrow> serve_outcome list \<Rightarrow> loop_end" where
  "crash_loop lastCrashTime restartCount [] = StillServing lastCrashTime restartCount"
| "crash_loop lastCrashTime restartCount (ServeReturnedNil # _) = LoopBreak"
| "crash_loop lastCrashTime restartCount (ServeCrashed now # rest) =
     (if restartCount > 5 then LogFatal
      else let timeSinceLastCrash = now - lastCrashTime
           in if timeSinceLastCrash > 3600
              then crash_loop now 1 rest
              else crash_loop now (restartCount + 1) rest)"

definition Serve_goroutine :: "real \<Rightarrow> serve_outcome list \<Rightarrow> loop_end" where
  "Serve_goroutine start outcomes = crash_loop start 0 outcomes"

section \<open>Strings and paths of the Go standard library\<close>

text \<open>\<open>strings.Join\<close>: the elements separated by \<open>sep\<close>.\<close>

fun strings_Join :: "string list \<Rightarrow> string \<Rightarrow> string" where
  "strings_Join [] sep = []"
| "strings_Join [x] sep = x"
| "strings_Join (x # y # ys) sep = x @ sep @ strings_Join (y # ys) sep"

text \<open>Decimal rendering of a non-negative integer, as \<open>%v\<close> prints it.\<close>

fun digit_char :: "nat \<Rightarrow> char" where
  "digit_char n = char_of (48 + n)"

fun decimal :: "nat \<Rightarrow> string" where
  "decimal n = (if n < 10 then [digit_char n] else decimal (n div 10) @ [digit_char (n mod 10)])"

declare decimal.simps [simp del]

text \<open>
  \<open>filepath.Clean\<close> on a Unix path, after the package documentation: the path is cut
  at its slashes; empty elements and \<open>.\<close> are dropped; \<open>..\<close> removes the element
  before it, is dropped at the root, and is kept at the start of a relative path; the
  empty result is \<open>.\<close>.
\<close>

fun split_slash :: "string \<Rightarrow> string list" where
  "split_slash [] = [[]]"
| "split_slash (c # cs) =
     (if c = CHR ''/'' then [] # split_slash cs
      else (case split_slash cs of
              [] \<Rightarrow> [[c]]
            | w # ws \<Rightarrow> (c # w) # ws))"

fun clean_step :: "bool \<Rightarrow> string list \<Rightarrow> string \<Rightarrow> string list" where
  "clean_step rooted stack elem =
     (if elem = [] \<or> elem = ''.'' then stack
      else if elem = ''..'' then
        (if stack \<noteq> [] \<and> last stack \<noteq> ''..'' then butlast stack
         else if rooted then stack
         else stack @ [elem])
      else stack @ [elem])"

definition filepath_Clean :: "string \<Rightarrow> string" where
  "filepath_Clean p =
     (if p = [] then ''.''
      else let rooted = (hd p = CHR ''/'');
               stack = foldl (clean_step rooted) [] (split_slash p);
               body = strings_Join stack ''/''
           in if rooted then ''/'' @ body
              else if body = [] then ''.'' else body)"

text \<open>
  \<open>filepath.Join\<close>: leading empty elements are skipped, the rest is joined with a
  slash and cleaned; with no non-empty element the result is the empty string.
\<close>

definition filepath_Join :: "string list \<Rightarrow> string" where
  "filepath_Join elems =
     (case dropWhile (\<lambda>e. e = []) elems of
        [] \<Rightarrow> []
      | e # es \<Rightarrow> filepath_Clean (strings_Join (e # es) ''/''))"

text \<open>
  \<open>path.Base\<close>: the last element of the path, trailing slashes removed first; \<open>.\<close>
  for the empty path and \<open>/\<close> for a path of slashes only.
\<close>

definition path_Base :: "string \<Rightarrow> string" where
  "path_Base p =
     (if p = [] then ''.''
      else let q = rev (dropWhile (\<lambda>c. c = CHR ''/'') (rev p))
           in if q = [] then ''/''
              else rev (takeWhile (\<lambda>c. c \<noteq> CHR ''/'') (rev q)))"

section \<open>Constants of the plugin\<close>

definition DeviceListStrategyEnvvar :: string where
  "DeviceListStrategyEnvvar = ''envvar''"

definition DeviceListStrategyVolumeMounts :: string where
  "DeviceListStrategyVolumeMounts = ''volume-mounts''"

definition DeviceIDStrategyUUID :: string where
  "DeviceIDStrategyUUID = ''uuid''"

definition DeviceIDStrategyIndex :: string where
  "DeviceIDStrategyIndex = ''index''"

definition deviceListAsVolumeMountsHostPath :: string where
  "deviceListAsVolumeMountsHostPath = ''/dev/null''"

definition deviceListAsVolumeMountsContainerPathRoot :: string where
  "deviceListAsVolumeMountsContainerPathRoot = ''/var/run/nvidia-container-devices''"

text \<open>The two health values of the device plugin API.\<close>

definition Healthy :: string where
  "Healthy = ''Healthy''"

definition Unhealthy :: string where
  "Unhealthy = ''Unhealthy''"

section \<open>Data model\<close>

text \<open>
  A physical device is held by pointer (\<open>*Device\<close>): the cached list, the virtual
  devices and the health channel all refer to the same objects. The store maps an
  address to the object found there.
\<close>

type_synonym addr = nat

text \<open>
  Modelled from the spec: the type \<open>Device\<close> is declared outside this file. A physical
  device has a stable identifier, an ordinal index in string form, its device-node
  paths and a health status.
\<close>

record Device =
  ID :: string
  Health :: string
  Paths :: "string list"
  Index :: string

type_synonym store = "addr \<Rightarrow> Device"

text \<open>
  Modelled from the spec: the type \<open>VDevice\<close> is declared outside this file. A virtual
  device is a slice of one physical device: its own identifier and health (the embedded
  API device), a reference \<open>dev\<close> to the physical device and a memory quantum in MB.
\<close>

record VDevice =
  vID :: string
  vHealth :: string
  dev :: addr
  memory :: nat

text \<open>The API device sent to the kubelet: an identifier and a health value.\<close>

record pluginapi_Device =
  apiID :: string
  apiHealth :: string

text \<open>
  A device of the allocator library is used through its \<open>UUID\<close> only and is
  represented by it. The policy is the library's interface method
  \<open>Allocate(available, required, size)\<close>.
\<close>

type_synonym gpu_device = string

type_synonym policy = "gpu_device list \<Rightarrow> gpu_device list \<Rightarrow> int \<Rightarrow> gpu_device list"

text \<open>
  The plugin. The server, the socket listener and the two channels are not part of the
  state; the controller field holds the state of the \<open>VDeviceController\<close> when there
  is one.
\<close>

record 'l NvidiaDevicePlugin =
  resourceName :: string
  deviceListEnvvar :: string
  allocatePolicy :: "policy option"
  socket :: string
  migStrategy :: string
  cachedDevices :: "addr list"
  vDevices :: "VDevice list"
  vDeviceController :: "'l option"

text \<open>
  The methods of \<open>VDeviceController\<close> that \<open>Allocate\<close> calls are declared outside this
  file; they are parameters of the model. \<open>updateFromCheckpoint\<close> may fail and may
  change the controller either way.
\<close>

record 'l controller_ops =
  updateFromCheckpoint :: "'l \<Rightarrow> error option \<times> 'l"
  releaseByRequest :: "string list \<Rightarrow> 'l \<Rightarrow> 'l"
  available :: "'l \<Rightarrow> string list"
  acquire :: "string list \<Rightarrow> string list \<Rightarrow> 'l \<Rightarrow> 'l"

text \<open>
  The command-line flags and annotation keys read by the handlers; they are declared
  outside this file. \<open>cudaDeviceSMLimit\<close> stands for the text of
  \<open>int(100 * deviceCoresScalingFlag / float64(deviceSplitCountFlag))\<close>, a floating-point
  computation, and \<open>pciBusFile\<close> for the environment variable \<open>PCIBUSFILE\<close>.
\<close>

record flags =
  deviceListStrategyFlag :: string
  deviceIDStrategyFlag :: string
  passDeviceSpecsFlag :: bool
  nvidiaDriverRootFlag :: string
  deviceMemoryScalingFlag :: real
  cudaDeviceSMLimit :: string
  pciBusFile :: string
  annRequest :: string
  annUsing :: string
  annSep :: string

section \<open>Registration and options\<close>

record DevicePluginOptions =
  GetPreferredAllocationAvailable :: bool

record RegisterRequest =
  Version :: string
  Endpoint :: string
  ResourceName :: string
  Options :: DevicePluginOptions

text \<open>
  \<open>Register\<close> dials the kubelet, builds the request and sends it. \<open>dial\<close> is the
  outcome of the dial, \<open>client_Register\<close> the outcome of the remote call; the result
  is the error returned and the request that was sent, if any.
\<close>

definition Register_request :: "string \<Rightarrow> 'l NvidiaDevicePlugin \<Rightarrow> RegisterRequest" where
  "Register_request version m =
     \<lparr> Version = version,
       Endpoint = path_Base (socket m),
       ResourceName = resourceName m,
       Options = \<lparr> GetPreferredAllocationAvailable =
                     (allocatePolicy m \<noteq> None \<and> vDeviceController m = None) \<rparr> \<rparr>"

definition Register ::
  "string \<Rightarrow> error option \<Rightarrow> (RegisterRequest \<Rightarrow> error option) \<Rightarrow>
   'l NvidiaDevicePlugin \<Rightarrow> error option \<times> RegisterRequest option" where
  "Register version dial client_Register m =
     (case dial of
        Some err \<Rightarrow> (Some err, None)
      | None \<Rightarrow>
          let reqt = Register_request version m
          in (client_Register reqt, Some reqt))"

definition GetDevicePluginOptions :: "'l NvidiaDevicePlugin \<Rightarrow> error + DevicePluginOptions" where
  "GetDevicePluginOptions m =
     Inr \<lparr> GetPreferredAllocationAvailable = (allocatePolicy m \<noteq> None) \<rparr>"

section \<open>Listing devices and watching their health\<close>

text \<open>
  \<open>apiDevices\<close>: with strategy \<open>none\<close> every virtual device first copies the health
  of its physical device into its own field and is then listed; otherwise the cached
  physical devices are listed. The result is what \<open>Send\<close> transmits, and the plugin
  with the virtual devices as the loop left them.
\<close>

definition apiDevices ::
  "store \<Rightarrow> 'l NvidiaDevicePlugin \<Rightarrow> pluginapi_Device list \<times> 'l NvidiaDevicePlugin" where
  "apiDevices h m =
     (if migStrategy m = ''none'' then
        let vds = map (\<lambda>d. d\<lparr> vHealth := Health (h (dev d)) \<rparr>) (vDevices m)
        in (map (\<lambda>d. \<lparr> apiID = vID d, apiHealth = vHealth d \<rparr>) vds,
            m\<lparr> vDevices := vds \<rparr>)
      else
        (map (\<lambda>a. \<lparr> apiID = ID (h a), apiHealth = Health (h a) \<rparr>) (cachedDevices m), m))"

text \<open>
  \<open>ListAndWatch\<close> sends the list once and then waits on two channels. The model is
  driven by what the \<open>select\<close> receives, in order: the closed stop channel, or a
  pointer to a device from the health channel. It returns how the handler ended, the
  store, the plugin and every list sent, oldest first. The result of \<open>Send\<close> is
  discarded by the handler.
\<close>

datatype watch_event = StopClosed | HealthEvent addr

datatype watch_end = Returned "error option" | Waiting

fun ListAndWatch_loop ::
  "store \<Rightarrow> 'l NvidiaDevicePlugin \<Rightarrow> watch_event list \<Rightarrow> pluginapi_Device list list \<Rightarrow>
   watch_end \<times> store \<times> 'l NvidiaDevicePlugin \<times> pluginapi_Device list list" where
  "ListAndWatch_loop h m [] sent = (Waiting, h, m, sent)"
| "ListAndWatch_loop h m (StopClosed # _) sent = (Returned None, h, m, sent)"
| "ListAndWatch_loop h m (HealthEvent d # rest) sent =
     (let h' = h(d := (h d)\<lparr> Health := Unhealthy \<rparr>);
          (devs, m') = apiDevices h' m
      in ListAndWatch_loop h' m' rest (sent @ [devs]))"

definition ListAndWatch ::
  "store \<Rightarrow> 'l NvidiaDevicePlugin \<Rightarrow> watch_event list \<Rightarrow>
   watch_end \<times> store \<times> 'l NvidiaDevicePlugin \<times> pluginapi_Device list list" where
  "ListAndWatch h m events =
     (let (devs, m') = apiDevices h m
      in ListAndWatch_loop h m' events [devs])"

section \<open>Virtual devices by identifier\<close>

text \<open>
  Modelled from the spec: \<open>VDevicesByIDs\<close> is defined outside this file. It resolves
  each identifier to the virtual device that carries it and fails with an
  unknown-device error when one does not resolve.
\<close>

fun VDevicesByIDs :: "VDevice list \<Rightarrow> string list \<Rightarrow> error + VDevice list" where
  "VDevicesByIDs vds [] = Inr []"
| "VDevicesByIDs vds (i # ids) =
     (case find (\<lambda>v. vID v = i) vds of
        None \<Rightarrow> Inl (Err (''unknown device: '' @ i))
      | Some v \<Rightarrow>
          (case VDevicesByIDs vds ids of
             Inl e \<Rightarrow> Inl e
           | Inr r \<Rightarrow> Inr (v # r)))"

text \<open>
  Modelled from the spec: \<open>UniqueDeviceIDs\<close> is defined outside this file. It reduces
  a list of virtual devices to the identifiers of their physical devices, each once,
  in the order of first appearance.
\<close>

fun UniqueDeviceIDs_acc :: "store \<Rightarrow> VDevice list \<Rightarrow> string list \<Rightarrow> string list" where
  "UniqueDeviceIDs_acc h [] ids = ids"
| "UniqueDeviceIDs_acc h (vd # vds) ids =
     (if ID (h (dev vd)) \<in> set ids then UniqueDeviceIDs_acc h vds ids
      else UniqueDeviceIDs_acc h vds (ids @ [ID (h (dev vd))]))"

definition UniqueDeviceIDs :: "store \<Rightarrow> VDevice list \<Rightarrow> string list" where
  "UniqueDeviceIDs h vds = UniqueDeviceIDs_acc h vds []"

section \<open>Preferred allocation\<close>

record ContainerPreferredAllocationRequest =
  AvailableDeviceIDs :: "string list"
  MustIncludeDeviceIDs :: "string list"
  AllocationSize :: int

record ContainerPreferredAllocationResponse =
  DeviceIDs :: "string list"

text \<open>
  The inner loops of \<open>GetPreferredAllocation\<close>: every allocated device contributes
  the identifier of the first available virtual device that lies on it, if there is one.
\<close>

fun first_vdevice_on :: "store \<Rightarrow> VDevice list \<Rightarrow> gpu_device \<Rightarrow> string list" where
  "first_vdevice_on h [] device = []"
| "first_vdevice_on h (vd # vds) device =
     (if ID (h (dev vd)) = device then [vID vd] else first_vdevice_on h vds device)"

fun collect_deviceIds ::
  "store \<Rightarrow> VDevice list \<Rightarrow> gpu_device list \<Rightarrow> string list \<Rightarrow> string list" where
  "collect_deviceIds h availableVDev [] deviceIds = deviceIds"
| "collect_deviceIds h availableVDev (device # rest) deviceIds =
     collect_deviceIds h availableVDev rest (deviceIds @ first_vdevice_on h availableVDev device)"

text \<open>
  One iteration of the loop over the container requests. \<open>NewDevicesFrom\<close> belongs to
  the allocator library and is a parameter. A nil policy is dereferenced, and a
  negative size is used as a slice bound: both panic. The lengths of the lists are
  below \<open>2^31\<close>, so the conversions between \<open>int\<close> and \<open>int32\<close> keep the value.
\<close>

definition preferred_for_container ::
  "store \<Rightarrow> (string list \<Rightarrow> error + gpu_device list) \<Rightarrow> 'l NvidiaDevicePlugin \<Rightarrow>
   ContainerPreferredAllocationRequest \<Rightarrow> error + ContainerPreferredAllocationResponse" where
  "preferred_for_container h NewDevicesFrom m req =
     (case VDevicesByIDs (vDevices m) (AvailableDeviceIDs req) of
        Inl err \<Rightarrow> Inl (Err (''Unable to retrieve list of available vdevices: '' @ errmsg err))
      | Inr availableVDev \<Rightarrow>
     (case NewDevicesFrom (UniqueDeviceIDs h availableVDev) of
        Inl err \<Rightarrow> Inl (Err (''Unable to retrieve list of available devices: '' @ errmsg err))
      | Inr avail \<Rightarrow>
     (case VDevicesByIDs (vDevices m) (MustIncludeDeviceIDs req) of
        Inl err \<Rightarrow> Inl (Err (''Unable to retrieve list of available vdevices: '' @ errmsg err))
      | Inr requiredVDev \<Rightarrow>
     (case NewDevicesFrom (UniqueDeviceIDs h requiredVDev) of
        Inl err \<Rightarrow> Inl (Err (''Unable to retrieve list of required devices: '' @ errmsg err))
      | Inr required \<Rightarrow>
     (case allocatePolicy m of
        None \<Rightarrow> Inl (Panic ''nil pointer dereference'')
      | Some pol \<Rightarrow>
          let allocated = pol avail required (AllocationSize req)
          in if length allocated = 0 \<and> int (length avail) \<ge> AllocationSize req then
               (if AllocationSize req < 0 then Inl (Panic ''slice bounds out of range'')
                else Inr \<lparr> DeviceIDs =
                       collect_deviceIds h availableVDev
                         (take (nat (AllocationSize req)) avail) [] \<rparr>)
             else Inr \<lparr> DeviceIDs = collect_deviceIds h availableVDev allocated [] \<rparr>)))))"

fun preferred_loop ::
  "store \<Rightarrow> (string list \<Rightarrow> error + gpu_device list) \<Rightarrow> 'l NvidiaDevicePlugin \<Rightarrow>
   ContainerPreferredAllocationRequest list \<Rightarrow> ContainerPreferredAllocationResponse list \<Rightarrow>
   error + ContainerPreferredAllocationResponse list" where
  "preferred_loop h NewDevicesFrom m [] responses = Inr responses"
| "preferred_loop h NewDevicesFrom m (req # rest) responses =
     (case preferred_for_container h NewDevicesFrom m req of
        Inl err \<Rightarrow> Inl err
      | Inr resp \<Rightarrow> preferred_loop h NewDevicesFrom m rest (responses @ [resp]))"

text \<open>
  \<open>GetPreferredAllocation\<close> returns a response pointer and an error: \<open>Inr None\<close> is
  the pair of a nil response and a nil error.
\<close>

definition GetPreferredAllocation ::
  "store \<Rightarrow> (string list \<Rightarrow> error + gpu_device list) \<Rightarrow> 'l NvidiaDevicePlugin \<Rightarrow>
   ContainerPreferredAllocationRequest list \<Rightarrow>
   error + ContainerPreferredAllocationResponse list option" where
  "GetPreferredAllocation h NewDevicesFrom m r =
     (if migStrategy m = ''mixed'' then Inr None
      else (case preferred_loop h NewDevicesFrom m r [] of
              Inl err \<Rightarrow> Inl err
            | Inr responses \<Rightarrow> Inr (Some responses)))"

section \<open>Building a container response\<close>

record Mount =
  ContainerPath :: string
  HostPath :: string
  ReadOnly :: bool

record DeviceSpec =
  specContainerPath :: string
  specHostPath :: string
  Permissions :: string

text \<open>
  \<open>Envs\<close> and \<open>Annotations\<close> are Go maps and start out nil: \<open>None\<close> is the nil map,
  which can be read but not written.
\<close>

record ContainerAllocateResponse =
  Envs :: "(string \<rightharpoonup> string) option"
  Mounts :: "Mount list"
  Devices :: "DeviceSpec list"
  Annotations :: "(string \<rightharpoonup> string) option"

record ContainerAllocateRequest =
  DevicesIDs :: "string list"

definition deviceExists :: "store \<Rightarrow> 'l NvidiaDevicePlugin \<Rightarrow> string \<Rightarrow> bool" where
  "deviceExists h m i = list_ex (\<lambda>a. ID (h a) = i) (cachedDevices m)"

fun index_matches :: "store \<Rightarrow> addr list \<Rightarrow> string list \<Rightarrow> string list \<Rightarrow> string list" where
  "index_matches h [] uuids deviceIDs = deviceIDs"
| "index_matches h (d # ds) uuids deviceIDs =
     index_matches h ds uuids
       (deviceIDs @ map (\<lambda>_. Index (h d)) (filter (\<lambda>i. ID (h d) = i) uuids))"

definition deviceIDsFromUUIDs ::
  "flags \<Rightarrow> store \<Rightarrow> 'l NvidiaDevicePlugin \<Rightarrow> string list \<Rightarrow> string list" where
  "deviceIDsFromUUIDs cfg h m uuids =
     (if deviceIDStrategyFlag cfg = DeviceIDStrategyUUID then uuids
      else if deviceIDStrategyFlag cfg = DeviceIDStrategyIndex
           then index_matches h (cachedDevices m) uuids []
           else [])"

definition apiEnvs :: "string \<Rightarrow> string list \<Rightarrow> (string \<rightharpoonup> string)" where
  "apiEnvs envvar deviceIDs = [envvar \<mapsto> strings_Join deviceIDs '','']"

fun apiMounts_loop :: "string list \<Rightarrow> Mount list \<Rightarrow> Mount list" where
  "apiMounts_loop [] mounts = mounts"
| "apiMounts_loop (i # ids) mounts =
     apiMounts_loop ids
       (mounts @ [\<lparr> ContainerPath = filepath_Join [deviceListAsVolumeMountsContainerPathRoot, i],
                    HostPath = deviceListAsVolumeMountsHostPath,
                    ReadOnly = False \<rparr>])"

definition apiMounts :: "string list \<Rightarrow> Mount list" where
  "apiMounts deviceIDs = apiMounts_loop deviceIDs []"

text \<open>
  \<open>apiDeviceSpecs\<close>. \<open>stat\<close> tells for which paths \<open>os.Stat\<close> succeeds at the time of
  the call. The three nested loops over the cached devices, the identifiers and the
  paths of a device follow the first loop over the four fixed paths.
\<close>

definition control_paths :: "string list" where
  "control_paths =
     [''/dev/nvidiactl'', ''/dev/nvidia-uvm'', ''/dev/nvidia-uvm-tools'', ''/dev/nvidia-modeset'']"

definition mk_spec :: "string \<Rightarrow> string \<Rightarrow> DeviceSpec" where
  "mk_spec driverRoot p =
     \<lparr> specContainerPath = p,
       specHostPath = filepath_Join [driverRoot, p],
       Permissions = ''rw'' \<rparr>"

fun specs_of_control ::
  "(string \<Rightarrow> bool) \<Rightarrow> string \<Rightarrow> string list \<Rightarrow> DeviceSpec list \<Rightarrow> DeviceSpec list" where
  "specs_of_control stat driverRoot [] specs = specs"
| "specs_of_control stat driverRoot (p # ps) specs =
     specs_of_control stat driverRoot ps
       (if stat p then specs @ [mk_spec driverRoot p] else specs)"

fun specs_of_paths :: "string \<Rightarrow> string list \<Rightarrow> DeviceSpec list \<Rightarrow> DeviceSpec list" where
  "specs_of_paths driverRoot [] specs = specs"
| "specs_of_paths driverRoot (p # ps) specs =
     specs_of_paths driverRoot ps (specs @ [mk_spec driverRoot p])"

fun specs_of_uuids ::
  "string \<Rightarrow> Device \<Rightarrow> string list \<Rightarrow> DeviceSpec list \<Rightarrow> DeviceSpec list" where
  "specs_of_uuids driverRoot d [] specs = specs"
| "specs_of_uuids driverRoot d (i # ids) specs =
     specs_of_uuids driverRoot d ids
       (if ID d = i then specs_of_paths driverRoot (Paths d) specs else specs)"

fun specs_of_devices ::
  "string \<Rightarrow> store \<Rightarrow> addr list \<Rightarrow> string list \<Rightarrow> DeviceSpec list \<Rightarrow> DeviceSpec list" where
  "specs_of_devices driverRoot h [] uuids specs = specs"
| "specs_of_devices driverRoot h (d # ds) uuids specs =
     specs_of_devices driverRoot h ds uuids (specs_of_uuids driverRoot (h d) uuids specs)"

definition apiDeviceSpecs ::
  "(string \<Rightarrow> bool) \<Rightarrow> store \<Rightarrow> 'l NvidiaDevicePlugin \<Rightarrow> string \<Rightarrow> string list \<Rightarrow>
   DeviceSpec list" where
  "apiDeviceSpecs stat h m driverRoot uuids =
     specs_of_devices driverRoot h (cachedDevices m) uuids
       (specs_of_control stat driverRoot control_paths [])"

text \<open>
  The three \<open>if\<close> statements on the flags, which \<open>MIGAllocate\<close> and \<open>Allocate\<close> both
  apply to a fresh response.
\<close>

definition strategy_response ::
  "flags \<Rightarrow> (string \<Rightarrow> bool) \<Rightarrow> store \<Rightarrow> 'l NvidiaDevicePlugin \<Rightarrow> string list \<Rightarrow>
   string list \<Rightarrow> ContainerAllocateResponse" where
  "strategy_response cfg stat h m deviceIDs uuids =
     (let r0 = \<lparr> Envs = None, Mounts = [], Devices = [], Annotations = None \<rparr>;
          r1 = (if deviceListStrategyFlag cfg = DeviceListStrategyEnvvar
                then r0\<lparr> Envs := Some (apiEnvs (deviceListEnvvar m) deviceIDs) \<rparr>
                else r0);
          r2 = (if deviceListStrategyFlag cfg = DeviceListStrategyVolumeMounts
                then r1\<lparr> Envs := Some (apiEnvs (deviceListEnvvar m)
                                           [deviceListAsVolumeMountsContainerPathRoot]),
                         Mounts := apiMounts deviceIDs \<rparr>
                else r1)
      in if passDeviceSpecsFlag cfg
         then r2\<lparr> Devices := apiDeviceSpecs stat h m (nvidiaDriverRootFlag cfg) uuids \<rparr>
         else r2)"

section \<open>\<open>MIGAllocate\<close>\<close>

definition MIG_container ::
  "flags \<Rightarrow> (string \<Rightarrow> bool) \<Rightarrow> store \<Rightarrow> 'l NvidiaDevicePlugin \<Rightarrow>
   ContainerAllocateRequest \<Rightarrow> error + ContainerAllocateResponse" where
  "MIG_container cfg stat h m req =
     (case find (\<lambda>i. \<not> deviceExists h m i) (DevicesIDs req) of
        Some i \<Rightarrow>
          Inl (Err (''invalid allocation request for '' @ [CHR 0x27] @ resourceName m @ [CHR 0x27]
                    @ '': unknown device: '' @ i))
      | None \<Rightarrow>
          let uuids = DevicesIDs req;
              deviceIDs = deviceIDsFromUUIDs cfg h m uuids
          in Inr (strategy_response cfg stat h m deviceIDs uuids))"

fun MIG_loop ::
  "flags \<Rightarrow> (string \<Rightarrow> bool) \<Rightarrow> store \<Rightarrow> 'l NvidiaDevicePlugin \<Rightarrow>
   ContainerAllocateRequest list \<Rightarrow> ContainerAllocateResponse list \<Rightarrow>
   error + ContainerAllocateResponse list" where
  "MIG_loop cfg stat h m [] responses = Inr responses"
| "MIG_loop cfg stat h m (req # rest) responses =
     (case MIG_container cfg stat h m req of
        Inl err \<Rightarrow> Inl err
      | Inr response \<Rightarrow> MIG_loop cfg stat h m rest (responses @ [response]))"

definition MIGAllocate ::
  "flags \<Rightarrow> (string \<Rightarrow> bool) \<Rightarrow> store \<Rightarrow> 'l NvidiaDevicePlugin \<Rightarrow>
   ContainerAllocateRequest list \<Rightarrow> error + ContainerAllocateResponse list" where
  "MIGAllocate cfg stat h m reqs = MIG_loop cfg stat h m reqs []"

section \<open>\<open>Allocate\<close>\<close>

subsection \<open>Monitor mode\<close>

text \<open>
  With \<open>VGPU_MONITOR_MODE\<close> set, \<open>Allocate\<close> lists the pods of the cluster and looks
  for a pending pod whose containers ask for as many devices as the requests hold. Of
  a pod the name, the phase and the containers are read; of a container its name and
  its limit for \<open>nvidia.com/gpu\<close>, if it has one.
\<close>

record Container =
  ctrName :: string
  gpuLimit :: "real option"

record Pod =
  podName :: string
  podPending :: bool
  podContainers :: "Container list"

text \<open>
  The monitor input of a call: \<open>None\<close> when the variable is unset or empty, otherwise
  the outcome of the three client calls, each of which panics on an error.
\<close>

type_synonym monitor = "(error + Pod list) option"

fun pod_matches ::
  "ContainerAllocateRequest list \<Rightarrow> Container list \<Rightarrow> nat \<Rightarrow> nat \<Rightarrow> error + bool" where
  "pod_matches reqs [] ctridx minus' = Inr True"
| "pod_matches reqs (ctr # rest) ctridx minus' =
     (case gpuLimit ctr of
        None \<Rightarrow> pod_matches reqs rest (ctridx + 1) (minus' + 1)
      | Some nvcount \<Rightarrow>
          if ctridx - minus' \<ge> length reqs then Inl (Panic ''index out of range'')
          else if nvcount \<noteq> real (length (DevicesIDs (reqs ! (ctridx - minus')))) then Inr False
          else pod_matches reqs rest (ctridx + 1) minus')"

fun find_targetpod :: "ContainerAllocateRequest list \<Rightarrow> Pod list \<Rightarrow> Pod \<Rightarrow> error + Pod" where
  "find_targetpod reqs [] targetpod = Inr targetpod"
| "find_targetpod reqs (cursor # rest) targetpod =
     (if podPending cursor then
        (case pod_matches reqs (podContainers cursor) 0 0 of
           Inl err \<Rightarrow> Inl err
         | Inr match \<Rightarrow> find_targetpod reqs rest (if match then cursor else targetpod))
      else find_targetpod reqs rest targetpod)"

definition empty_Pod :: Pod where
  "empty_Pod = \<lparr> podName = [], podPending = False, podContainers = [] \<rparr>"

text \<open>
  The inner \<open>for\<close> loop that names the container of a request: it walks the
  containers of the target pod from position \<open>reqidx + addnum\<close> and stops at the first
  one with a limit; running off the end panics.
\<close>

fun next_gpu_container :: "Container list \<Rightarrow> nat \<Rightarrow> error + (string \<times> nat)" where
  "next_gpu_container [] addnum = Inl (Panic ''index out of range'')"
| "next_gpu_container (ctrs # rest) addnum =
     (case gpuLimit ctrs of
        None \<Rightarrow> next_gpu_container rest (addnum + 1)
      | Some _ \<Rightarrow> Inr (ctrName ctrs, addnum))"

subsection \<open>Choosing the devices of a request\<close>

text \<open>
  The block guarded by \<open>m.vDeviceController != nil\<close> at the head of an iteration. It
  returns the identifiers chosen, or the error, and the controller as the block leaves
  it.
\<close>

definition choose_devices ::
  "'l controller_ops \<Rightarrow> store \<Rightarrow> (string list \<Rightarrow> error + gpu_device list) \<Rightarrow>
   'l NvidiaDevicePlugin \<Rightarrow> 'l \<Rightarrow> ContainerAllocateRequest \<Rightarrow> (error + string list) \<times> 'l" where
  "choose_devices ops h NewDevicesFrom m l req =
     (let l1 = releaseByRequest ops (DevicesIDs req) l;
          availableIds = available ops l1
      in if length availableIds < length (DevicesIDs req)
         then (Inl (Err ''no enough devices''), l1)
         else
           let preferReq = \<lparr> AvailableDeviceIDs = availableIds,
                             MustIncludeDeviceIDs = [],
                             AllocationSize = int (length (DevicesIDs req)) \<rparr>
           in (case GetPreferredAllocation h NewDevicesFrom m [preferReq] of
                 Inl err \<Rightarrow> (Inl err, l1)
               | Inr None \<Rightarrow> (Inl (Panic ''nil pointer dereference''), l1)
               | Inr (Some []) \<Rightarrow> (Inl (Panic ''index out of range''), l1)
               | Inr (Some (resp # _)) \<Rightarrow>
                   let reqDeviceIDs =
                         (if int (length (DeviceIDs resp)) = AllocationSize preferReq
                          then DeviceIDs resp
                          else take (length (DevicesIDs req)) availableIds)
                   in (Inr reqDeviceIDs, acquire ops (DevicesIDs req) reqDeviceIDs l1)))"

subsection \<open>The rest of an iteration\<close>

fun limit_envs ::
  "store \<Rightarrow> nat \<Rightarrow> VDevice list \<Rightarrow> (string \<rightharpoonup> string) \<Rightarrow> string list \<Rightarrow>
   (string \<rightharpoonup> string) \<times> string list" where
  "limit_envs h i [] envs mapEnvs = (envs, mapEnvs)"
| "limit_envs h i (vd # vds) envs mapEnvs =
     limit_envs h (i + 1) vds
       (envs(''CUDA_DEVICE_MEMORY_LIMIT_'' @ decimal i \<mapsto> decimal (memory vd) @ ''m''))
       (mapEnvs @ [decimal i @ '':'' @ ID (h (dev vd))])"

definition shim_mounts :: "flags \<Rightarrow> Mount list" where
  "shim_mounts cfg =
     [\<lparr> ContainerPath = ''/usr/local/vgpu/libvgpu.so'',
        HostPath = ''/usr/local/vgpu/libvgpu.so'', ReadOnly = True \<rparr>,
      \<lparr> ContainerPath = ''/etc/ld.so.preload'',
        HostPath = ''/usr/local/vgpu/ld.so.preload'', ReadOnly = True \<rparr>,
      \<lparr> ContainerPath = ''/usr/local/vgpu/pciinfo.vgpu'',
        HostPath = pciBusFile cfg, ReadOnly = True \<rparr>,
      \<lparr> ContainerPath = ''/usr/bin/vgpuvalidator'',
        HostPath = ''/usr/local/vgpu/vgpuvalidator'', ReadOnly = True \<rparr>,
      \<lparr> ContainerPath = ''/vgpu'',
        HostPath = ''/usr/local/vgpu/license'', ReadOnly = True \<rparr>]"

text \<open>
  From \<open>VDevicesByIDs\<close> to the end of the iteration. \<open>ctl\<close> is the controller after
  the first block, \<open>timestr\<close> the directory name of monitor mode when that is on, and
  \<open>newUUID\<close> the string drawn by \<open>uuid.NewString\<close>. Writing into \<open>Envs\<close> panics when
  neither strategy has created the map. The directory that monitor mode creates on the
  host is not part of the model.
\<close>

definition finish_container ::
  "flags \<Rightarrow> 'l controller_ops \<Rightarrow> (string \<Rightarrow> bool) \<Rightarrow> store \<Rightarrow> 'l NvidiaDevicePlugin \<Rightarrow>
   string option \<Rightarrow> string \<Rightarrow> 'l option \<Rightarrow> ContainerAllocateRequest \<Rightarrow> string list \<Rightarrow>
   (error + ContainerAllocateResponse) \<times> 'l option" where
  "finish_container cfg ops stat h m timestr newUUID ctl req reqDeviceIDs =
     (case VDevicesByIDs (vDevices m) reqDeviceIDs of
        Inl err \<Rightarrow> (Inl err, ctl)
      | Inr vdevices \<Rightarrow>
          let uuids = UniqueDeviceIDs h vdevices;
              deviceIDs = deviceIDsFromUUIDs cfg h m uuids;
              response = strategy_response cfg stat h m deviceIDs uuids;
              response1 =
                (if ctl \<noteq> None
                 then response\<lparr> Annotations :=
                        Some [annRequest cfg \<mapsto> strings_Join (DevicesIDs req) (annSep cfg),
                              annUsing cfg \<mapsto> strings_Join reqDeviceIDs (annSep cfg)] \<rparr>
                 else response);
              ctl1 = map_option (acquire ops (DevicesIDs req) reqDeviceIDs) ctl
          in (case Envs response1 of
                None \<Rightarrow> (Inl (Panic ''assignment to entry in nil map''), ctl1)
              | Some envs0 \<Rightarrow>
                  let (envs1, mapEnvs) = limit_envs h 0 vdevices envs0 [];
                      envs2 = envs1(''CUDA_DEVICE_SM_LIMIT'' \<mapsto> cudaDeviceSMLimit cfg);
                      envs3 = envs2(''NVIDIA_DEVICE_MAP'' \<mapsto> strings_Join mapEnvs '' '');
                      mounts1 =
                        (case timestr of
                           Some t \<Rightarrow>
                             Mounts response1 @
                               [\<lparr> ContainerPath = ''/'' @ t,
                                  HostPath = ''/usr/local/vgpu/shared/'' @ t,
                                  ReadOnly = False \<rparr>]
                         | None \<Rightarrow> Mounts response1);
                      envs4 =
                        (case timestr of
                           Some t \<Rightarrow>
                             envs3(''CUDA_DEVICE_MEMORY_SHARED_CACHE'' \<mapsto>
                                     ''/'' @ t @ ''/'' @ newUUID @ ''.cache'')
                         | None \<Rightarrow>
                             envs3(''CUDA_DEVICE_MEMORY_SHARED_CACHE'' \<mapsto>
                                     ''/tmp/'' @ newUUID @ ''.cache''));
                      envs5 =
                        (if deviceMemoryScalingFlag cfg > 1
                         then envs4(''CUDA_OVERSUBSCRIBE'' \<mapsto> ''true'')
                         else envs4)
                  in (Inr (response1\<lparr> Envs := Some envs5,
                                       Mounts := mounts1 @ shim_mounts cfg \<rparr>),
                      ctl1)))"

subsection \<open>The loop over the container requests\<close>

text \<open>
  \<open>targetpod\<close> is \<open>None\<close> when monitor mode is off; then the container has no name
  and \<open>addnum\<close> stays as it is.
\<close>

definition container_name :: "Pod option \<Rightarrow> nat \<Rightarrow> nat \<Rightarrow> error + (string \<times> nat)" where
  "container_name targetpod reqidx addnum =
     (case targetpod of
        None \<Rightarrow> Inr ([], addnum)
      | Some pod \<Rightarrow> next_gpu_container (drop (reqidx + addnum) (podContainers pod)) addnum)"

text \<open>Without a controller the identifiers of the request are used as they are.\<close>

definition devices_for_request ::
  "'l controller_ops \<Rightarrow> store \<Rightarrow> (string list \<Rightarrow> error + gpu_device list) \<Rightarrow>
   'l NvidiaDevicePlugin \<Rightarrow> 'l option \<Rightarrow> ContainerAllocateRequest \<Rightarrow>
   (error + string list) \<times> 'l option" where
  "devices_for_request ops h NewDevicesFrom m ctl req =
     (case ctl of
        None \<Rightarrow> (Inr (DevicesIDs req), None)
      | Some l \<Rightarrow>
          (case choose_devices ops h NewDevicesFrom m l req of
             (r, l') \<Rightarrow> (r, Some l')))"

text \<open>
  One iteration. \<open>newUUID\<close> gives the random string drawn in iteration \<open>reqidx\<close>, and
  \<open>stat\<close> the file system as the call finds it. The iteration returns its response and
  the new value of \<open>addnum\<close>, or the error, and in both cases the controller as it is
  at that point.
\<close>

definition Allocate_container ::
  "flags \<Rightarrow> 'l controller_ops \<Rightarrow> (string \<Rightarrow> bool) \<Rightarrow> store \<Rightarrow>
   (string list \<Rightarrow> error + gpu_device list) \<Rightarrow> Pod option \<Rightarrow> (nat \<Rightarrow> string) \<Rightarrow>
   'l NvidiaDevicePlugin \<Rightarrow> nat \<Rightarrow> nat \<Rightarrow> 'l option \<Rightarrow> ContainerAllocateRequest \<Rightarrow>
   (error + (ContainerAllocateResponse \<times> nat)) \<times> 'l option" where
  "Allocate_container cfg ops stat h NewDevicesFrom targetpod newUUID m reqidx addnum ctl req =
     (case container_name targetpod reqidx addnum of
        Inl err \<Rightarrow> (Inl err, ctl)
      | Inr (ctrname, addnum') \<Rightarrow>
          (case devices_for_request ops h NewDevicesFrom m ctl req of
             (Inl err, ctl1) \<Rightarrow> (Inl err, ctl1)
           | (Inr reqDeviceIDs, ctl1) \<Rightarrow>
               (case finish_container cfg ops stat h m
                       (map_option (\<lambda>pod. podName pod @ ''_'' @ ctrname) targetpod)
                       (newUUID reqidx) ctl1 req reqDeviceIDs of
                  (Inl err, ctl2) \<Rightarrow> (Inl err, ctl2)
                | (Inr response, ctl2) \<Rightarrow> (Inr (response, addnum'), ctl2))))"

text \<open>The loop returns at the first error.\<close>

fun Allocate_loop ::
  "flags \<Rightarrow> 'l controller_ops \<Rightarrow> (string \<Rightarrow> bool) \<Rightarrow> store \<Rightarrow>
   (string list \<Rightarrow> error + gpu_device list) \<Rightarrow> Pod option \<Rightarrow> (nat \<Rightarrow> string) \<Rightarrow>
   'l NvidiaDevicePlugin \<Rightarrow> ContainerAllocateRequest list \<Rightarrow> nat \<Rightarrow> nat \<Rightarrow> 'l option \<Rightarrow>
   ContainerAllocateResponse list \<Rightarrow> (error + ContainerAllocateResponse list) \<times> 'l option" where
  "Allocate_loop cfg ops stat h NewDevicesFrom targetpod newUUID m [] reqidx addnum ctl responses =
     (Inr responses, ctl)"
| "Allocate_loop cfg ops stat h NewDevicesFrom targetpod newUUID m (req # rest) reqidx addnum ctl
       responses =
     (case Allocate_container cfg ops stat h NewDevicesFrom targetpod newUUID m reqidx addnum
             ctl req of
        (Inl err, ctl') \<Rightarrow> (Inl err, ctl')
      | (Inr (response, addnum'), ctl') \<Rightarrow>
          Allocate_loop cfg ops stat h NewDevicesFrom targetpod newUUID m rest (reqidx + 1)
            addnum' ctl' (responses @ [response]))"

text \<open>
  The head of \<open>Allocate\<close> in monitor mode: the pod whose containers the requests are
  taken to belong to, an empty pod when none matches.
\<close>

definition monitor_targetpod ::
  "monitor \<Rightarrow> ContainerAllocateRequest list \<Rightarrow> error + Pod option" where
  "monitor_targetpod mon reqs =
     (case mon of
        None \<Rightarrow> Inr None
      | Some (Inl err) \<Rightarrow> Inl (Panic (errmsg err))
      | Some (Inr pods) \<Rightarrow>
          (case find_targetpod reqs pods empty_Pod of
             Inl err \<Rightarrow> Inl err
           | Inr targetpod \<Rightarrow> Inr (Some targetpod)))"

text \<open>
  \<open>Allocate\<close> returns the responses or the error, and the controller of the plugin
  after the call. In mixed mode it is \<open>MIGAllocate\<close>, which does not use the
  controller. Otherwise the controller, if there is one, is first updated from the
  checkpoint, and an error of that update ends the call.
\<close>

definition Allocate ::
  "flags \<Rightarrow> 'l controller_ops \<Rightarrow> (string \<Rightarrow> bool) \<Rightarrow> store \<Rightarrow>
   (string list \<Rightarrow> error + gpu_device list) \<Rightarrow> monitor \<Rightarrow> (nat \<Rightarrow> string) \<Rightarrow>
   'l NvidiaDevicePlugin \<Rightarrow> ContainerAllocateRequest list \<Rightarrow>
   (error + ContainerAllocateResponse list) \<times> 'l option" where
  "Allocate cfg ops stat h NewDevicesFrom mon newUUID m reqs =
     (if migStrategy m = ''mixed'' then (MIGAllocate cfg stat h m reqs, vDeviceController m)
      else
        (case monitor_targetpod mon reqs of
           Inl err \<Rightarrow> (Inl err, vDeviceController m)
         | Inr targetpod \<Rightarrow>
             (case vDeviceController m of
                None \<Rightarrow>
                  Allocate_loop cfg ops stat h NewDevicesFrom targetpod newUUID m reqs 0 0 None []
              | Some l \<Rightarrow>
                  (case updateFromCheckpoint ops l of
                     (Some err, l') \<Rightarrow> (Inl err, Some l')
                   | (None, l') \<Rightarrow>
                       Allocate_loop cfg ops stat h NewDevicesFrom targetpod newUUID m reqs 0 0
                         (Some l') []))))"

section \<open>The controller\<close>

text \<open>
  Modelled from the spec: \<open>VDeviceController\<close> is defined outside this file. The ledger
  maps a request key, the identifiers originally requested, to the identifiers granted
  to it. An entry is created by \<open>acquire\<close> and removed by \<open>release\<close>; an identifier is
  available when no entry grants it. What the reconciliation with the checkpoint of the
  kubelet does depends on that file and stays a parameter.
\<close>

record ledger =
  known :: "string list"
  bindings :: "(string list \<times> string list) list"

definition ledger_release :: "string list \<Rightarrow> ledger \<Rightarrow> ledger" where
  "ledger_release key l = l\<lparr> bindings := AList.delete key (bindings l) \<rparr>"

definition ledger_available :: "ledger \<Rightarrow> string list" where
  "ledger_available l =
     filter (\<lambda>i. \<not> list_ex (\<lambda>(key, granted). i \<in> set granted) (bindings l)) (known l)"

definition ledger_acquire :: "string list \<Rightarrow> string list \<Rightarrow> ledger \<Rightarrow> ledger" where
  "ledger_acquire key granted l = l\<lparr> bindings := AList.update key granted (bindings l) \<rparr>"

definition ledger_ops :: "(ledger \<Rightarrow> error option \<times> ledger) \<Rightarrow> ledger controller_ops" where
  "ledger_ops reconcile =
     \<lparr> updateFromCheckpoint = reconcile,
       releaseByRequest = ledger_release,
       available = ledger_available,
       acquire = ledger_acquire \<rparr>"


text \<open>
  Any controller can be wrapped so that it also records the calls that change it, in
  the order in which they are made.
\<close>

datatype controller_call =
    UpdateFromCheckpointCall
  | ReleaseByRequestCall "string list"
  | AcquireCall "string list" "string list"

definition traced :: "'l controller_ops \<Rightarrow> ('l \<times> controller_call list) controller_ops" where
  "traced ops =
     \<lparr> updateFromCheckpoint =
         (\<lambda>(l, calls). case updateFromCheckpoint ops l of
                          (err, l') \<Rightarrow> (err, (l', calls @ [UpdateFromCheckpointCall]))),
       releaseByRequest =
         (\<lambda>key (l, calls). (releaseByRequest ops key l, calls @ [ReleaseByRequestCall key])),
       available = (\<lambda>(l, calls). available ops l),
       acquire =
         (\<lambda>key granted (l, calls).
            (acquire ops key granted l, calls @ [AcquireCall key granted])) \<rparr>"

section \<open>A node with two GPUs\<close>

text \<open>
  The concrete inputs at which the theorems below are evaluated: two physical devices,
  each cut into two virtual devices, a policy that never selects anything, and an
  allocator library that knows every identifier it is asked for.
\<close>

definition node_store :: store where
  "node_store =
     (\<lambda>_. \<lparr> ID = [], Health = Healthy, Paths = [], Index = [] \<rparr>)
       (0 := \<lparr> ID = ''GPU-a'', Health = Healthy, Paths = [''/dev/nvidia0''], Index = ''0'' \<rparr>,
        1 := \<lparr> ID = ''GPU-b'', Health = Healthy, Paths = [''/dev/nvidia1''], Index = ''1'' \<rparr>)"

definition node_vdevices :: "VDevice list" where
  "node_vdevices =
     [\<lparr> vID = ''GPU-a-0'', vHealth = Healthy, dev = 0, memory = 1024 \<rparr>,
      \<lparr> vID = ''GPU-a-1'', vHealth = Healthy, dev = 0, memory = 1024 \<rparr>,
      \<lparr> vID = ''GPU-b-0'', vHealth = Healthy, dev = 1, memory = 2048 \<rparr>,
      \<lparr> vID = ''GPU-b-1'', vHealth = Healthy, dev = 1, memory = 2048 \<rparr>]"

definition silent_policy :: policy where
  "silent_policy avail required n = []"

definition node_plugin :: "string \<Rightarrow> 'l option \<Rightarrow> 'l NvidiaDevicePlugin" where
  "node_plugin strategy ctl =
     \<lparr> resourceName = ''nvidia.com/gpu'',
       deviceListEnvvar = ''NVIDIA_VISIBLE_DEVICES'',
       allocatePolicy = Some silent_policy,
       socket = ''/var/lib/kubelet/device-plugins/nvidia.sock'',
       migStrategy = strategy,
       cachedDevices = [0, 1],
       vDevices = node_vdevices,
       vDeviceController = ctl \<rparr>"

definition node_flags :: "string \<Rightarrow> flags" where
  "node_flags listStrategy =
     \<lparr> deviceListStrategyFlag = listStrategy,
       deviceIDStrategyFlag = DeviceIDStrategyUUID,
       passDeviceSpecsFlag = True,
       nvidiaDriverRootFlag = ''/run/nvidia/driver'',
       deviceMemoryScalingFlag = 1,
       cudaDeviceSMLimit = ''50'',
       pciBusFile = ''/usr/local/vgpu/pciinfo'',
       annRequest = ''vgpu-request'',
       annUsing = ''vgpu-using'',
       annSep = '','' \<rparr>"

definition library_devices :: "string list \<Rightarrow> error + gpu_device list" where
  "library_devices uuids = Inr uuids"

definition node_stat :: "string \<Rightarrow> bool" where
  "node_stat p = (p = ''/dev/nvidiactl'' \<or> p = ''/dev/nvidia-uvm'')"

definition no_reconcile :: "ledger \<Rightarrow> error option \<times> ledger" where
  "no_reconcile l = (None, l)"

definition node_ledger :: "(string list \<times> string list) list \<Rightarrow> ledger" where
  "node_ledger bs = \<lparr> known = map vID node_vdevices, bindings = bs \<rparr>"

section \<open>What a list sent by \<open>ListAndWatch\<close> shows\<close>

text \<open>
  A list sent to the kubelet shows the physical device at address \<open>d\<close> as unhealthy
  when, with strategy \<open>none\<close>, it has one entry for every virtual device and the entry
  of each virtual device that lies on \<open>d\<close> carries that device's identifier and the
  health \<open>Unhealthy\<close>; with any other strategy, when it has one entry for every cached
  device and the entry of \<open>d\<close> is \<open>Unhealthy\<close>.
\<close>

definition shows_unhealthy ::
  "'l NvidiaDevicePlugin \<Rightarrow> addr \<Rightarrow> pluginapi_Device list \<Rightarrow> bool" where
  "shows_unhealthy m d devs =
     (if migStrategy m = ''none''
      then length devs = length (vDevices m) \<and>
           (\<forall>k < length (vDevices m). dev (vDevices m ! k) = d \<longrightarrow>
              apiID (devs ! k) = vID (vDevices m ! k) \<and> apiHealth (devs ! k) = Unhealthy)
      else length devs = length (cachedDevices m) \<and>
           (\<forall>k < length (cachedDevices m). cachedDevices m ! k = d \<longrightarrow>
              apiHealth (devs ! k) = Unhealthy))"

section \<open>Identifiers that are clean relative paths\<close>

text \<open>
  A path is a clean relative path when none of its elements between slashes is empty,
  \<open>.\<close> or \<open>..\<close>; \<open>filepath.Clean\<close> leaves such a path as it is.
\<close>

definition clean_relative :: "string \<Rightarrow> bool" where
  "clean_relative p = list_all (\<lambda>e. e \<noteq> [] \<and> e \<noteq> ''.'' \<and> e \<noteq> ''..'') (split_slash p)"

section \<open>The calls of one request\<close>

text \<open>
  The calls that change the controller while one container request is served with the
  identifiers \<open>g\<close> granted: the release under the key of the request and two
  acquisitions with the same arguments.
\<close>

definition request_calls :: "ContainerAllocateRequest \<Rightarrow> string list \<Rightarrow> controller_call list" where
  "request_calls req g =
     [ReleaseByRequestCall (DevicesIDs req), AcquireCall (DevicesIDs req) g,
      AcquireCall (DevicesIDs req) g]"

section \<open>The mount of one device\<close>

text \<open>The mount that \<open>apiMounts\<close> builds for one identifier.\<close>

definition device_mount :: "string \<Rightarrow> Mount" where
  "device_mount d =
     \<lparr> ContainerPath = filepath_Join [deviceListAsVolumeMountsContainerPathRoot, d],
       HostPath = deviceListAsVolumeMountsHostPath,
       ReadOnly = False \<rparr>"

section \<open>Properties\<close>

subsection \<open>The crash-restart loop\<close>

lemma crash_loop_first_crash:
  "crash_loop start 0 (ServeCrashed t1 # rest) = crash_loop t1 1 rest"
  by simp

lemma seventh_crash_is_fatal:
  assumes "t2 - t1 \<le> 3600" "t3 - t2 \<le> 3600" "t4 - t3 \<le> 3600" "t5 - t4 \<le> 3600"
    "t6 - t5 \<le> 3600"
  shows "Serve_goroutine start
           (map ServeCrashed [t1, t2, t3, t4, t5, t6]) = StillServing t6 6
         \<and> Serve_goroutine start
           (map ServeCrashed [t1, t2, t3, t4, t5, t6, t7] @ rest) = LogFatal"
  using assms by (simp add: Serve_goroutine_def Let_def)

text \<open>
  C2. Seven crashes, the first six ten seconds apart and the seventh more than an hour
  after the sixth: after six crashes the loop is still serving with a count of 6, and
  the seventh crash ends the process, because the count is tested before the time
  since the last crash is looked at. The count is not reset to 1.
\<close>

theorem Serve_seventh_crash_after_long_gap:
  "Serve_goroutine 0 (map ServeCrashed [10, 20, 30, 40, 50, 60]) = StillServing 60 6
   \<and> Serve_goroutine 0 (map ServeCrashed [10, 20, 30, 40, 50, 60, 5000]) = LogFatal
   \<and> (5000::real) - 60 > 3600"
  by (simp add: Serve_goroutine_def Let_def)

subsection \<open>Options and registration\<close>

text \<open>
  C4. With a policy and a controller both present, \<open>GetDevicePluginOptions\<close> reports
  preferred allocation as available, while the request built by \<open>Register\<close> for the
  same plugin reports it as not available: only \<open>Register\<close> looks at the controller.
\<close>

theorem GetDevicePluginOptions_ignores_controller:
  "GetDevicePluginOptions (m\<lparr> allocatePolicy := Some pol, vDeviceController := Some l \<rparr>)
     = Inr \<lparr> GetPreferredAllocationAvailable = True \<rparr>
   \<and> Options (Register_request version
                (m\<lparr> allocatePolicy := Some pol, vDeviceController := Some l \<rparr>))
     = \<lparr> GetPreferredAllocationAvailable = False \<rparr>"
  by (simp add: GetDevicePluginOptions_def Register_request_def)

lemma GetDevicePluginOptions_policy_only:
  "GetDevicePluginOptions m = Inr \<lparr> GetPreferredAllocationAvailable = (allocatePolicy m \<noteq> None) \<rparr>"
  by (simp add: GetDevicePluginOptions_def)

subsection \<open>Preferred allocation in mixed mode\<close>

text \<open>
  C6. When the MIG strategy of the plugin is \<open>mixed\<close>, \<open>GetPreferredAllocation\<close>
  returns a nil response and a nil error, whatever the request is.
\<close>

theorem GetPreferredAllocation_mixed:
  "migStrategy m = ''mixed'' \<Longrightarrow> GetPreferredAllocation h NewDevicesFrom m r = Inr None"
  by (simp add: GetPreferredAllocation_def)

theorem GetPreferredAllocation_mixed_witness:
  "migStrategy (node_plugin ''mixed'' (None :: ledger option)) = ''mixed''
   \<and> GetPreferredAllocation node_store library_devices (node_plugin ''mixed'' (None :: ledger option))
        [\<lparr> AvailableDeviceIDs = [''GPU-a-0'', ''no-such-device''],
           MustIncludeDeviceIDs = [], AllocationSize = - 1 \<rparr>] = Inr None"
proof -
  have mixed: "migStrategy (node_plugin ''mixed'' (None :: ledger option)) = ''mixed''"
    by (simp add: node_plugin_def)
  show ?thesis
    using mixed GetPreferredAllocation_mixed [OF mixed] by simp
qed

subsection \<open>Health in the lists sent by \<open>ListAndWatch\<close>\<close>

lemma apiDevices_keeps:
  "apiDevices h m = (devs, m') \<Longrightarrow>
     migStrategy m' = migStrategy m \<and> cachedDevices m' = cachedDevices m
     \<and> map dev (vDevices m') = map dev (vDevices m)
     \<and> map vID (vDevices m') = map vID (vDevices m)"
  by (auto simp: apiDevices_def Let_def split: if_splits)

lemma shows_unhealthy_cong:
  assumes "migStrategy m' = migStrategy m" "cachedDevices m' = cachedDevices m"
    "map dev (vDevices m') = map dev (vDevices m)" "map vID (vDevices m') = map vID (vDevices m)"
  shows "shows_unhealthy m' d devs = shows_unhealthy m d devs"
proof -
  have len: "length (vDevices m') = length (vDevices m)"
    using assms(3) by (metis length_map)
  have devk: "\<And>k. k < length (vDevices m) \<Longrightarrow> dev (vDevices m' ! k) = dev (vDevices m ! k)"
    using assms(3) len by (metis nth_map)
  have idk: "\<And>k. k < length (vDevices m) \<Longrightarrow> vID (vDevices m' ! k) = vID (vDevices m ! k)"
    using assms(4) len by (metis nth_map)
  show ?thesis
    unfolding shows_unhealthy_def using assms(1,2) len devk idk by auto
qed

lemma apiDevices_shows:
  assumes "apiDevices h m = (devs, m')" "Health (h d) = Unhealthy"
  shows "shows_unhealthy m d devs"
  using assms by (auto simp: apiDevices_def shows_unhealthy_def Let_def split: if_splits)

lemma loop_keeps_showing:
  "ListAndWatch_loop h m es sent = (r, h', m', sent') \<Longrightarrow> Health (h d) = Unhealthy \<Longrightarrow>
     \<exists>new. sent' = sent @ new \<and> (\<forall>devs \<in> set new. shows_unhealthy m d devs)"
proof (induction es arbitrary: h m sent)
  case Nil
  then show ?case by simp
next
  case (Cons e es)
  show ?case
  proof (cases e)
    case StopClosed
    with Cons.prems show ?thesis by simp
  next
    case (HealthEvent a)
    define h1 where "h1 = h(a := (h a)\<lparr> Health := Unhealthy \<rparr>)"
    obtain devs m1 where ad: "apiDevices h1 m = (devs, m1)" by (cases "apiDevices h1 m")
    have un: "Health (h1 d) = Unhealthy" using Cons.prems(2) by (simp add: h1_def)
    have run: "ListAndWatch_loop h1 m1 es (sent @ [devs]) = (r, h', m', sent')"
      using Cons.prems(1) HealthEvent ad by (simp add: h1_def Let_def)
    from Cons.IH [OF run un] obtain new where
      new: "sent' = (sent @ [devs]) @ new" "\<forall>x \<in> set new. shows_unhealthy m1 d x" by blast
    have same: "\<And>x. shows_unhealthy m1 d x = shows_unhealthy m d x"
      using apiDevices_keeps [OF ad] by (intro shows_unhealthy_cong) auto
    have "shows_unhealthy m d devs" using apiDevices_shows [OF ad un] .
    with new same have "sent' = sent @ (devs # new) \<and> (\<forall>x \<in> set (devs # new). shows_unhealthy m d x)"
      by simp
    then show ?thesis by blast
  qed
qed

lemma loop_never_heals:
  "ListAndWatch_loop h m es sent = (r, h', m', sent') \<Longrightarrow> Health (h d) = Unhealthy \<Longrightarrow>
     Health (h' d) = Unhealthy"
proof (induction es arbitrary: h m sent)
  case Nil
  then show ?case by simp
next
  case (Cons e es)
  show ?case
  proof (cases e)
    case StopClosed
    with Cons.prems show ?thesis by simp
  next
    case (HealthEvent a)
    define h1 where "h1 = h(a := (h a)\<lparr> Health := Unhealthy \<rparr>)"
    obtain devs m1 where ad: "apiDevices h1 m = (devs, m1)" by (cases "apiDevices h1 m")
    have un: "Health (h1 d) = Unhealthy" using Cons.prems(2) by (simp add: h1_def)
    have run: "ListAndWatch_loop h1 m1 es (sent @ [devs]) = (r, h', m', sent')"
      using Cons.prems(1) HealthEvent ad by (simp add: h1_def Let_def)
    from Cons.IH [OF run un] show ?thesis .
  qed
qed

lemma loop_after_event:
  "ListAndWatch_loop h m (es1 @ HealthEvent d # es2) sent = (r, h', m', sent') \<Longrightarrow>
     length sent + length es1 \<le> j \<Longrightarrow> j < length sent' \<Longrightarrow> shows_unhealthy m d (sent' ! j)"
proof (induction es1 arbitrary: h m sent)
  case Nil
  define h1 where "h1 = h(d := (h d)\<lparr> Health := Unhealthy \<rparr>)"
  obtain devs m1 where ad: "apiDevices h1 m = (devs, m1)" by (cases "apiDevices h1 m")
  have un: "Health (h1 d) = Unhealthy" by (simp add: h1_def)
  have run: "ListAndWatch_loop h1 m1 es2 (sent @ [devs]) = (r, h', m', sent')"
    using Nil.prems(1) ad by (simp add: h1_def Let_def)
  from loop_keeps_showing [OF run un] obtain new where
    new: "sent' = (sent @ [devs]) @ new" "\<forall>x \<in> set new. shows_unhealthy m1 d x" by blast
  have same: "\<And>x. shows_unhealthy m1 d x = shows_unhealthy m d x"
    using apiDevices_keeps [OF ad] by (intro shows_unhealthy_cong) auto
  have first: "shows_unhealthy m d devs" using apiDevices_shows [OF ad un] .
  have "sent' ! j \<in> set (devs # new)"
    using Nil.prems(2,3) new(1) by (auto simp: nth_append nth_Cons split: nat.splits)
  with first new(2) same show ?case by auto
next
  case (Cons e es1)
  show ?case
  proof (cases e)
    case StopClosed
    with Cons.prems show ?thesis by simp
  next
    case (HealthEvent a)
    define h1 where "h1 = h(a := (h a)\<lparr> Health := Unhealthy \<rparr>)"
    obtain devs m1 where ad: "apiDevices h1 m = (devs, m1)" by (cases "apiDevices h1 m")
    have run: "ListAndWatch_loop h1 m1 (es1 @ HealthEvent d # es2) (sent @ [devs]) = (r, h', m', sent')"
      using Cons.prems(1) HealthEvent ad by (simp add: h1_def Let_def)
    have same: "\<And>x. shows_unhealthy m1 d x = shows_unhealthy m d x"
      using apiDevices_keeps [OF ad] by (intro shows_unhealthy_cong) auto
    have "shows_unhealthy m1 d (sent' ! j)"
      using Cons.IH [OF run] Cons.prems(2,3) by simp
    with same show ?thesis by simp
  qed
qed

text \<open>
  C7. In one run of \<open>ListAndWatch\<close>, once the handler has received the device at
  address \<open>d\<close> from the health channel, the list it sends for that event and every
  list it sends afterwards show that device as unhealthy. The lists are numbered from
  0, the list sent on entry; the event at position \<open>length es1\<close> is answered by list
  \<open>length es1 + 1\<close>.
\<close>

theorem ListAndWatch_unhealthy_stays:
  assumes "ListAndWatch h m (es1 @ HealthEvent d # es2) = (r, h', m', sent)"
    and "length es1 < j" and "j < length sent"
  shows "shows_unhealthy m d (sent ! j)"
proof -
  obtain devs m1 where ad: "apiDevices h m = (devs, m1)" by (cases "apiDevices h m")
  have run: "ListAndWatch_loop h m1 (es1 @ HealthEvent d # es2) [devs] = (r, h', m', sent)"
    using assms(1) ad by (simp add: ListAndWatch_def)
  have same: "\<And>x. shows_unhealthy m1 d x = shows_unhealthy m d x"
    using apiDevices_keeps [OF ad] by (intro shows_unhealthy_cong) auto
  have "shows_unhealthy m1 d (sent ! j)"
    using loop_after_event [OF run] assms(2,3) by simp
  with same show ?thesis by simp
qed

theorem ListAndWatch_unhealthy_stays_witness:
  "length (snd (snd (snd (ListAndWatch node_store (node_plugin ''none'' (None :: ledger option))
             [HealthEvent 1, HealthEvent 0])))) = 3
   \<and> shows_unhealthy (node_plugin ''none'' (None :: ledger option)) 1
        (snd (snd (snd (ListAndWatch node_store (node_plugin ''none'' (None :: ledger option))
             [HealthEvent 1, HealthEvent 0]))) ! 2)
   \<and> map apiHealth
        (snd (snd (snd (ListAndWatch node_store (node_plugin ''none'' (None :: ledger option))
             [HealthEvent 1, HealthEvent 0]))) ! 1)
       = [Healthy, Healthy, Unhealthy, Unhealthy]"
proof -
  let ?m = "node_plugin ''none'' (None :: ledger option)"
  let ?run = "ListAndWatch node_store ?m [HealthEvent 1, HealthEvent 0]"
  obtain r h' m' sent where run: "?run = (r, h', m', sent)"
    by (cases ?run)
  have sent: "map (map apiHealth) (snd (snd (snd ?run)))
                = [[Healthy, Healthy, Healthy, Healthy],
                   [Healthy, Healthy, Unhealthy, Unhealthy],
                   [Unhealthy, Unhealthy, Unhealthy, Unhealthy]]"
    by (simp add: ListAndWatch_def apiDevices_def node_plugin_def node_store_def
        node_vdevices_def Healthy_def Unhealthy_def Let_def)
  have len: "length sent = 3"
    using arg_cong [OF sent, of length] run by simp
  have ev: "ListAndWatch node_store ?m ([] @ HealthEvent 1 # [HealthEvent 0]) = (r, h', m', sent)"
    using run by simp
  have "shows_unhealthy ?m 1 (sent ! 2)"
    using ListAndWatch_unhealthy_stays [OF ev, of 2] len by simp
  moreover have "map apiHealth (sent ! 1) = [Healthy, Healthy, Unhealthy, Unhealthy]"
    using arg_cong [OF sent, of "\<lambda>xs. xs ! 1"] run len by simp
  ultimately show ?thesis
    using run len by simp
qed

subsection \<open>Device specs\<close>

lemma specs_of_control_eq:
  "specs_of_control stat driverRoot ps specs = specs @ map (mk_spec driverRoot) (filter stat ps)"
  by (induction ps arbitrary: specs) simp_all

lemma specs_of_paths_eq:
  "specs_of_paths driverRoot ps specs = specs @ map (mk_spec driverRoot) ps"
  by (induction ps arbitrary: specs) simp_all

lemma specs_of_uuids_eq:
  "specs_of_uuids driverRoot d ids specs =
     specs @ map (mk_spec driverRoot) (concat (map (\<lambda>i. if ID d = i then Paths d else []) ids))"
  by (induction ids arbitrary: specs) (simp_all add: specs_of_paths_eq)

lemma specs_of_devices_eq:
  "specs_of_devices driverRoot h ds uuids specs =
     specs @ map (mk_spec driverRoot)
       (concat (map (\<lambda>d. concat (map (\<lambda>i. if ID (h d) = i then Paths (h d) else []) uuids)) ds))"
  by (induction ds arbitrary: specs) (simp_all add: specs_of_uuids_eq)

text \<open>
  C9. The specs returned by \<open>apiDeviceSpecs\<close> are, in this order: one for each of
  the four control paths for which \<open>os.Stat\<close> succeeds at the time of the call, and
  then, for each cached device and each requested identifier equal to that device's
  identifier, one for each path recorded for the device. In every spec the host path is
  the driver root joined with the container path, and the permissions are \<open>rw\<close>.
\<close>

theorem apiDeviceSpecs_contents:
  "map specContainerPath (apiDeviceSpecs stat h m driverRoot uuids)
     = filter stat control_paths
       @ concat (map (\<lambda>d. concat (map (\<lambda>i. if ID (h d) = i then Paths (h d) else []) uuids))
                   (cachedDevices m))
   \<and> (\<forall>s \<in> set (apiDeviceSpecs stat h m driverRoot uuids).
         specHostPath s = filepath_Join [driverRoot, specContainerPath s]
         \<and> Permissions s = ''rw'')"
  by (auto simp: apiDeviceSpecs_def specs_of_devices_eq specs_of_control_eq mk_spec_def comp_def)

theorem apiDeviceSpecs_contents_witness:
  "apiDeviceSpecs node_stat node_store (node_plugin ''none'' (None :: ledger option))
       ''/run/nvidia/driver'' [''GPU-b'']
     = [\<lparr> specContainerPath = ''/dev/nvidiactl'',
          specHostPath = ''/run/nvidia/driver/dev/nvidiactl'', Permissions = ''rw'' \<rparr>,
        \<lparr> specContainerPath = ''/dev/nvidia-uvm'',
          specHostPath = ''/run/nvidia/driver/dev/nvidia-uvm'', Permissions = ''rw'' \<rparr>,
        \<lparr> specContainerPath = ''/dev/nvidia1'',
          specHostPath = ''/run/nvidia/driver/dev/nvidia1'', Permissions = ''rw'' \<rparr>]"
proof -
  let ?specs = "apiDeviceSpecs node_stat node_store (node_plugin ''none'' (None :: ledger option))
                  ''/run/nvidia/driver'' [''GPU-b'']"
  have paths: "map specContainerPath ?specs = [''/dev/nvidiactl'', ''/dev/nvidia-uvm'', ''/dev/nvidia1'']"
    and hosts: "\<forall>s \<in> set ?specs.
         specHostPath s = filepath_Join [''/run/nvidia/driver'', specContainerPath s]
         \<and> Permissions s = ''rw''"
    using apiDeviceSpecs_contents [of node_stat node_store
        "node_plugin ''none'' (None :: ledger option)" "''/run/nvidia/driver''" "[''GPU-b'']"]
    by (simp_all add: control_paths_def node_stat_def node_store_def node_plugin_def)
  from paths obtain s1 s2 s3 where s: "?specs = [s1, s2, s3]"
    "specContainerPath s1 = ''/dev/nvidiactl''" "specContainerPath s2 = ''/dev/nvidia-uvm''"
    "specContainerPath s3 = ''/dev/nvidia1''"
    by (auto simp: map_eq_Cons_conv)
  have j: "filepath_Join [''/run/nvidia/driver'', ''/dev/nvidiactl''] = ''/run/nvidia/driver/dev/nvidiactl''"
    "filepath_Join [''/run/nvidia/driver'', ''/dev/nvidia-uvm''] = ''/run/nvidia/driver/dev/nvidia-uvm''"
    "filepath_Join [''/run/nvidia/driver'', ''/dev/nvidia1''] = ''/run/nvidia/driver/dev/nvidia1''"
    by (simp_all add: filepath_Join_def filepath_Clean_def Let_def)
  show ?thesis
    using hosts s j by (simp add: s(1))
qed

subsection \<open>Joining a clean relative path to the mount root\<close>

lemma split_slash_not_Nil: "split_slash s \<noteq> []"
  by (induction s) (auto split: list.splits)

lemma split_slash_append:
  "split_slash (a @ ''/'' @ b) = split_slash a @ split_slash b"
proof (induction a)
  case Nil
  show ?case by simp
next
  case (Cons c a)
  obtain w ws where w: "split_slash a = w # ws"
    using split_slash_not_Nil [of a] by (cases "split_slash a") auto
  show ?case using Cons w by simp
qed

lemma strings_Join_Cons_char:
  "strings_Join ((c # w) # ws) sep = c # strings_Join (w # ws) sep"
  by (cases ws) simp_all

lemma strings_Join_Nil_Cons:
  "ws \<noteq> [] \<Longrightarrow> strings_Join ([] # ws) sep = sep @ strings_Join ws sep"
  by (cases ws) simp_all

lemma strings_Join_split_slash: "strings_Join (split_slash s) ''/'' = s"
proof (induction s)
  case Nil
  show ?case by simp
next
  case (Cons c s)
  obtain w ws where w: "split_slash s = w # ws"
    using split_slash_not_Nil [of s] by (cases "split_slash s") auto
  show ?case
  proof (cases "c = CHR ''/''")
    case True
    then show ?thesis
      using Cons strings_Join_Nil_Cons [OF split_slash_not_Nil, of s "''/''"] by simp
  next
    case False
    then show ?thesis
      using Cons w by (simp add: strings_Join_Cons_char)
  qed
qed

lemma strings_Join_append:
  "xs \<noteq> [] \<Longrightarrow> ys \<noteq> [] \<Longrightarrow>
     strings_Join (xs @ ys) sep = strings_Join xs sep @ sep @ strings_Join ys sep"
proof (induction xs)
  case Nil
  then show ?case by simp
next
  case (Cons x xs)
  show ?case
  proof (cases xs)
    case Nil
    with Cons.prems show ?thesis by (cases ys) simp_all
  next
    case (Cons x' xs')
    with Cons.IH Cons.prems show ?thesis by simp
  qed
qed

lemma foldl_clean_step_plain:
  "list_all (\<lambda>e. e \<noteq> [] \<and> e \<noteq> ''.'' \<and> e \<noteq> ''..'') es \<Longrightarrow>
     foldl (clean_step rooted) stack es = stack @ es"
  by (induction es arbitrary: stack) simp_all

lemma filepath_Clean_rooted:
  "p \<noteq> [] \<Longrightarrow> hd p = CHR ''/'' \<Longrightarrow>
     filepath_Clean p = ''/'' @ strings_Join (foldl (clean_step True) [] (split_slash p)) ''/''"
  by (simp add: filepath_Clean_def Let_def)

lemma Join_under_mount_root:
  assumes "clean_relative d"
  shows "filepath_Join [deviceListAsVolumeMountsContainerPathRoot, d]
           = deviceListAsVolumeMountsContainerPathRoot @ ''/'' @ d"
proof -
  define parts where "parts = [''var'', ''run'', ''nvidia-container-devices'']"
  define root where "root = ''/var/run/nvidia-container-devices''"
  have root_parts: "foldl (clean_step True) [] (split_slash root) = parts"
    by (simp add: root_def parts_def)
  have parts_join: "''/'' @ strings_Join parts ''/'' = root"
    by (simp add: root_def parts_def)
  have plain: "foldl (clean_step True) parts (split_slash d) = parts @ split_slash d"
    using assms by (simp only: clean_relative_def foldl_clean_step_plain)
  have stack: "foldl (clean_step True) [] (split_slash (root @ ''/'' @ d)) = parts @ split_slash d"
    by (simp only: split_slash_append foldl_append root_parts plain)
  have body: "strings_Join (parts @ split_slash d) ''/'' = strings_Join parts ''/'' @ ''/'' @ d"
    using strings_Join_append [of parts "split_slash d" "''/''"] split_slash_not_Nil [of d]
    by (simp add: strings_Join_split_slash parts_def)
  have rooted: "root @ ''/'' @ d \<noteq> []" "hd (root @ ''/'' @ d) = CHR ''/''"
    by (simp_all add: root_def)
  have "filepath_Clean (root @ ''/'' @ d) = (''/'' @ strings_Join parts ''/'') @ ''/'' @ d"
    by (simp only: filepath_Clean_rooted [OF rooted] stack body append_assoc)
  then have clean: "filepath_Clean (root @ ''/'' @ d) = root @ ''/'' @ d"
    by (simp only: parts_join)
  have "filepath_Join [root, d] = filepath_Clean (root @ ''/'' @ d)"
    by (simp add: filepath_Join_def root_def)
  with clean show ?thesis
    by (simp add: deviceListAsVolumeMountsContainerPathRoot_def root_def)
qed

subsection \<open>Resolving identifiers and choosing devices\<close>

lemma VDevicesByIDs_Inr:
  "VDevicesByIDs vds ids = Inr av \<Longrightarrow> length av = length ids \<and> set av \<subseteq> set vds"
proof (induction ids arbitrary: av)
  case Nil
  then show ?case by simp
next
  case (Cons i ids)
  then show ?case
    by (auto split: option.splits sum.splits simp: find_Some_iff)
qed









lemma choose_devices_short:
  assumes "length (available ops (releaseByRequest ops (DevicesIDs req) l))
             < length (DevicesIDs req)"
  shows "choose_devices ops h NewDevicesFrom m l req
           = (Inl (Err ''no enough devices''), releaseByRequest ops (DevicesIDs req) l)"
  using assms by (simp add: choose_devices_def Let_def)


subsection \<open>How many identifiers are granted\<close>





subsection \<open>What an iteration does to the controller\<close>


lemma finish_container_Inr:
  assumes "finish_container cfg ops stat h m ts u ctl req g = (Inr resp, ctl')"
  shows "ctl' = map_option (acquire ops (DevicesIDs req) g) ctl
         \<and> Annotations resp =
             (if ctl \<noteq> None
              then Some [annRequest cfg \<mapsto> strings_Join (DevicesIDs req) (annSep cfg),
                         annUsing cfg \<mapsto> strings_Join g (annSep cfg)]
              else None)
         \<and> (\<exists>vdevices.
               VDevicesByIDs (vDevices m) g = Inr vdevices
               \<and> Devices resp =
                   Devices (strategy_response cfg stat h m
                      (deviceIDsFromUUIDs cfg h m (UniqueDeviceIDs h vdevices))
                      (UniqueDeviceIDs h vdevices))
               \<and> Mounts resp =
                   Mounts (strategy_response cfg stat h m
                      (deviceIDsFromUUIDs cfg h m (UniqueDeviceIDs h vdevices))
                      (UniqueDeviceIDs h vdevices))
                   @ (case ts of
                        Some t \<Rightarrow> [\<lparr> ContainerPath = ''/'' @ t,
                                     HostPath = ''/usr/local/vgpu/shared/'' @ t,
                                     ReadOnly = False \<rparr>]
                      | None \<Rightarrow> [])
                   @ shim_mounts cfg)"
  using assms
  by (auto simp: finish_container_def Let_def strategy_response_def
           split: sum.splits option.splits prod.splits if_splits)

lemma choose_devices_traced:
  assumes "choose_devices (traced ops) h NewDevicesFrom m (l, calls) req = (r, s)"
  shows "\<exists>l'. s = (l', calls @ ReleaseByRequestCall (DevicesIDs req)
                        # (case r of Inl _ \<Rightarrow> [] | Inr g \<Rightarrow> [AcquireCall (DevicesIDs req) g]))
              \<and> (case r of Inl _ \<Rightarrow> True | Inr g \<Rightarrow> length g = length (DevicesIDs req))"
  using assms
  by (auto simp: choose_devices_def traced_def Let_def
           split: if_splits sum.splits option.splits list.splits)

lemma Allocate_container_traced:
  assumes "Allocate_container cfg (traced ops) stat h NewDevicesFrom targetpod newUUID m
             reqidx addnum (Some (l, calls)) req = (Inr (resp, addnum'), ctl')"
  shows "\<exists>l' g. ctl' = Some (l', calls @ [ReleaseByRequestCall (DevicesIDs req),
                                          AcquireCall (DevicesIDs req) g,
                                          AcquireCall (DevicesIDs req) g])
               \<and> length g = length (DevicesIDs req)
               \<and> Annotations resp =
                    Some [annRequest cfg \<mapsto> strings_Join (DevicesIDs req) (annSep cfg),
                          annUsing cfg \<mapsto> strings_Join g (annSep cfg)]"
proof -
  from assms obtain ctrname g ctl1 where
    ch: "devices_for_request (traced ops) h NewDevicesFrom m (Some (l, calls)) req = (Inr g, ctl1)"
    and fin: "finish_container cfg (traced ops) stat h m
                (map_option (\<lambda>pod. podName pod @ ''_'' @ ctrname) targetpod)
                (newUUID reqidx) ctl1 req g = (Inr resp, ctl')"
    by (auto simp: Allocate_container_def split: sum.splits prod.splits)
  from ch obtain s where s: "choose_devices (traced ops) h NewDevicesFrom m (l, calls) req = (Inr g, s)"
    "ctl1 = Some s"
    by (auto simp: devices_for_request_def split: prod.splits)
  from choose_devices_traced [OF s(1)] obtain l1 where
    l1: "s = (l1, calls @ [ReleaseByRequestCall (DevicesIDs req), AcquireCall (DevicesIDs req) g])"
    and len: "length g = length (DevicesIDs req)"
    by auto
  from finish_container_Inr [OF fin] have
    ctl': "ctl' = map_option (acquire (traced ops) (DevicesIDs req) g) ctl1"
    and ann: "Annotations resp =
                Some [annRequest cfg \<mapsto> strings_Join (DevicesIDs req) (annSep cfg),
                      annUsing cfg \<mapsto> strings_Join g (annSep cfg)]"
    using s(2) by auto
  have "ctl' = Some (acquire ops (DevicesIDs req) g l1,
                  calls @ [ReleaseByRequestCall (DevicesIDs req), AcquireCall (DevicesIDs req) g,
                           AcquireCall (DevicesIDs req) g])"
    using ctl' s(2) l1 by (simp add: traced_def)
  with len ann show ?thesis by blast
qed

lemma Allocate_loop_traced:
  "Allocate_loop cfg (traced ops) stat h NewDevicesFrom targetpod newUUID m reqs reqidx addnum
       (Some (l, calls)) responses = (Inr rs, ctl') \<Longrightarrow>
   \<exists>l' gs new.
      ctl' = Some (l', calls @ concat (map2 request_calls reqs gs))
      \<and> length gs = length reqs \<and> rs = responses @ new \<and> length new = length reqs
      \<and> (\<forall>k < length reqs.
            length (gs ! k) = length (DevicesIDs (reqs ! k))
            \<and> Annotations (new ! k) =
                 Some [annRequest cfg \<mapsto> strings_Join (DevicesIDs (reqs ! k)) (annSep cfg),
                       annUsing cfg \<mapsto> strings_Join (gs ! k) (annSep cfg)])"
proof (induction reqs arbitrary: reqidx addnum l calls responses)
  case Nil
  then show ?case by auto
next
  case (Cons req rest)
  from Cons.prems obtain resp addnum' ctl1 where
    it: "Allocate_container cfg (traced ops) stat h NewDevicesFrom targetpod newUUID m reqidx addnum
           (Some (l, calls)) req = (Inr (resp, addnum'), ctl1)"
    and run: "Allocate_loop cfg (traced ops) stat h NewDevicesFrom targetpod newUUID m rest
                (reqidx + 1) addnum' ctl1 (responses @ [resp]) = (Inr rs, ctl')"
    by (auto split: sum.splits prod.splits)
  from Allocate_container_traced [OF it] obtain l1 g where
    ctl1: "ctl1 = Some (l1, calls @ request_calls req g)"
    and g: "length g = length (DevicesIDs req)"
    and ann: "Annotations resp =
                Some [annRequest cfg \<mapsto> strings_Join (DevicesIDs req) (annSep cfg),
                      annUsing cfg \<mapsto> strings_Join g (annSep cfg)]"
    unfolding request_calls_def by blast
  from Cons.IH [OF run [unfolded ctl1]] obtain l' gs new where
    IH: "ctl' = Some (l', (calls @ request_calls req g) @ concat (map2 request_calls rest gs))"
      "length gs = length rest" "rs = (responses @ [resp]) @ new" "length new = length rest"
      "\<forall>k < length rest.
            length (gs ! k) = length (DevicesIDs (rest ! k))
            \<and> Annotations (new ! k) =
                 Some [annRequest cfg \<mapsto> strings_Join (DevicesIDs (rest ! k)) (annSep cfg),
                       annUsing cfg \<mapsto> strings_Join (gs ! k) (annSep cfg)]"
    by blast
  have each: "\<forall>k < length (req # rest).
            length ((g # gs) ! k) = length (DevicesIDs ((req # rest) ! k))
            \<and> Annotations ((resp # new) ! k) =
                 Some [annRequest cfg \<mapsto> strings_Join (DevicesIDs ((req # rest) ! k)) (annSep cfg),
                       annUsing cfg \<mapsto> strings_Join ((g # gs) ! k) (annSep cfg)]"
  proof (intro allI impI)
    fix k assume "k < length (req # rest)"
    then show "length ((g # gs) ! k) = length (DevicesIDs ((req # rest) ! k))
            \<and> Annotations ((resp # new) ! k) =
                 Some [annRequest cfg \<mapsto> strings_Join (DevicesIDs ((req # rest) ! k)) (annSep cfg),
                       annUsing cfg \<mapsto> strings_Join ((g # gs) ! k) (annSep cfg)]"
      using g ann IH(5) by (cases k) simp_all
  qed
  have "ctl' = Some (l', calls @ concat (map2 request_calls (req # rest) (g # gs)))
        \<and> length (g # gs) = length (req # rest) \<and> rs = responses @ (resp # new)
        \<and> length (resp # new) = length (req # rest)"
    using IH(1-4) by simp
  with each show ?case by blast
qed

text \<open>
  C10. In a call of \<open>Allocate\<close> outside mixed mode that has a controller and
  succeeds, the calls that change the controller are the update from the checkpoint and
  then, for each container request in turn, the release under the identifiers of the
  request followed by exactly two acquisitions with the same two arguments: the
  identifiers of the request and the identifiers granted, which are as many as were
  requested and are those recorded in the annotations of the response.
\<close>

theorem Allocate_acquires_twice:
  assumes "migStrategy m \<noteq> ''mixed''"
    and "vDeviceController m = Some (l, calls)"
    and "Allocate cfg (traced ops) stat h NewDevicesFrom mon newUUID m reqs = (Inr rs, ctl')"
  shows "\<exists>l' gs.
      ctl' = Some (l', calls @ UpdateFromCheckpointCall # concat (map2 request_calls reqs gs))
      \<and> length gs = length reqs \<and> length rs = length reqs
      \<and> (\<forall>k < length reqs.
            length (gs ! k) = length (DevicesIDs (reqs ! k))
            \<and> Annotations (rs ! k) =
                 Some [annRequest cfg \<mapsto> strings_Join (DevicesIDs (reqs ! k)) (annSep cfg),
                       annUsing cfg \<mapsto> strings_Join (gs ! k) (annSep cfg)])"
proof -
  from assms obtain targetpod l0 where
    run: "Allocate_loop cfg (traced ops) stat h NewDevicesFrom targetpod newUUID m reqs 0 0
            (Some (l0, calls @ [UpdateFromCheckpointCall])) [] = (Inr rs, ctl')"
    by (auto simp: Allocate_def traced_def split: sum.splits option.splits prod.splits)
  from Allocate_loop_traced [OF run] show ?thesis
    by auto
qed

theorem Allocate_acquires_twice_witness:
  "snd (Allocate (node_flags DeviceListStrategyEnvvar) (traced (ledger_ops no_reconcile)) node_stat
          node_store library_devices None (\<lambda>_. ''u'')
          (node_plugin ''none'' (Some (node_ledger [], []))) [\<lparr> DevicesIDs = [''GPU-b-1''] \<rparr>])
     = Some (node_ledger [([''GPU-b-1''], [''GPU-a-0''])],
             [UpdateFromCheckpointCall, ReleaseByRequestCall [''GPU-b-1''],
              AcquireCall [''GPU-b-1''] [''GPU-a-0''], AcquireCall [''GPU-b-1''] [''GPU-a-0'']])
   \<and> (\<exists>l' gs.
        snd (Allocate (node_flags DeviceListStrategyEnvvar) (traced (ledger_ops no_reconcile))
               node_stat node_store library_devices None (\<lambda>_. ''u'')
               (node_plugin ''none'' (Some (node_ledger [], []))) [\<lparr> DevicesIDs = [''GPU-b-1''] \<rparr>])
          = Some (l', [] @ UpdateFromCheckpointCall
                        # concat (map2 request_calls [\<lparr> DevicesIDs = [''GPU-b-1''] \<rparr>] gs))
        \<and> length gs = 1)"
proof -
  let ?m = "node_plugin ''none'' (Some (node_ledger [], []))"
  let ?run = "Allocate (node_flags DeviceListStrategyEnvvar) (traced (ledger_ops no_reconcile))
                node_stat node_store library_devices None (\<lambda>_. ''u'') ?m
                [\<lparr> DevicesIDs = [''GPU-b-1''] \<rparr>]"
  have ok: "\<not> isl (fst ?run)"
    and ctl: "snd ?run
       = Some (node_ledger [([''GPU-b-1''], [''GPU-a-0''])],
             [UpdateFromCheckpointCall, ReleaseByRequestCall [''GPU-b-1''],
              AcquireCall [''GPU-b-1''] [''GPU-a-0''], AcquireCall [''GPU-b-1''] [''GPU-a-0'']])"
    by (simp_all add: Allocate_def Allocate_container_def container_name_def
        devices_for_request_def choose_devices_def finish_container_def strategy_response_def
        monitor_targetpod_def GetPreferredAllocation_def preferred_for_container_def
        deviceIDsFromUUIDs_def apiEnvs_def apiDeviceSpecs_def control_paths_def
        UniqueDeviceIDs_def traced_def ledger_ops_def no_reconcile_def ledger_release_def
        ledger_available_def ledger_acquire_def node_ledger_def node_plugin_def node_flags_def
        node_vdevices_def node_store_def node_stat_def library_devices_def silent_policy_def
        DeviceListStrategyEnvvar_def DeviceListStrategyVolumeMounts_def DeviceIDStrategyUUID_def
        Let_def)
  obtain rs ctl' where run: "?run = (Inr rs, ctl')"
    using ok by (cases ?run; cases "fst ?run") auto
  have mode: "migStrategy ?m \<noteq> ''mixed''" and ctrl: "vDeviceController ?m = Some (node_ledger [], [])"
    by (simp_all add: node_plugin_def)
  from Allocate_acquires_twice [OF mode ctrl run] obtain l' gs where
    tr: "ctl' = Some (l', [] @ UpdateFromCheckpointCall
                        # concat (map2 request_calls [\<lparr> DevicesIDs = [''GPU-b-1''] \<rparr>] gs))"
    and len: "length gs = 1"
    by auto
  have "snd ?run = Some (l', [] @ UpdateFromCheckpointCall
                        # concat (map2 request_calls [\<lparr> DevicesIDs = [''GPU-b-1''] \<rparr>] gs))"
    by (simp only: run snd_conv tr)
  with ctl len show ?thesis by blast
qed

subsection \<open>A request for more devices than are available\<close>

lemma Allocate_container_addnum:
  "Allocate_container cfg ops stat h NewDevicesFrom None newUUID m reqidx addnum ctl req
     = (Inr (resp, addnum'), ctl') \<Longrightarrow> addnum' = addnum"
  by (auto simp: Allocate_container_def container_name_def split: sum.splits prod.splits)

lemma Allocate_loop_append:
  "Allocate_loop cfg ops stat h NewDevicesFrom None newUUID m (pre @ rest) reqidx addnum ctl responses
     = (case Allocate_loop cfg ops stat h NewDevicesFrom None newUUID m pre reqidx addnum ctl responses of
          (Inl err, ctl') \<Rightarrow> (Inl err, ctl')
        | (Inr rs, ctl') \<Rightarrow>
            Allocate_loop cfg ops stat h NewDevicesFrom None newUUID m rest (reqidx + length pre)
              addnum ctl' rs)"
proof (induction pre arbitrary: reqidx ctl responses)
  case Nil
  show ?case by simp
next
  case (Cons req pre)
  show ?case
  proof (cases "Allocate_container cfg ops stat h NewDevicesFrom None newUUID m reqidx addnum ctl req")
    case (Pair r ctl1)
    show ?thesis
    proof (cases r)
      case (Inl err)
      with Pair show ?thesis by simp
    next
      case (Inr ra)
      obtain resp addnum' where ra: "ra = (resp, addnum')" by (cases ra)
      have "addnum' = addnum"
        using Pair Inr ra by (auto dest: Allocate_container_addnum)
      with Pair Inr ra Cons.IH [of "reqidx + 1" ctl1 "responses @ [resp]"] show ?thesis
        by (simp cong: prod.case_cong sum.case_cong)
    qed
  qed
qed

lemma Allocate_container_short:
  assumes "length (available ops (releaseByRequest ops (DevicesIDs req) l)) < length (DevicesIDs req)"
  shows "Allocate_container cfg ops stat h NewDevicesFrom None newUUID m reqidx addnum (Some l) req
           = (Inl (Err ''no enough devices''), Some (releaseByRequest ops (DevicesIDs req) l))"
  using choose_devices_short [OF assms]
  by (simp add: Allocate_container_def container_name_def devices_for_request_def)

text \<open>The definitions that are unfolded to evaluate a call on the node with two GPUs.\<close>

lemmas node_eval =
  Allocate_def Allocate_container_def container_name_def
  devices_for_request_def choose_devices_def finish_container_def strategy_response_def
  monitor_targetpod_def GetPreferredAllocation_def preferred_for_container_def
  deviceIDsFromUUIDs_def apiEnvs_def apiDeviceSpecs_def control_paths_def
  UniqueDeviceIDs_def ledger_ops_def no_reconcile_def ledger_release_def
  ledger_available_def ledger_acquire_def node_ledger_def node_plugin_def node_flags_def
  node_vdevices_def node_store_def node_stat_def library_devices_def silent_policy_def
  DeviceListStrategyEnvvar_def DeviceListStrategyVolumeMounts_def DeviceIDStrategyUUID_def
  Let_def

text \<open>
  C1, as stated, fails: a call with two container requests, of which the first is served
  and the second asks for three devices when two are available, returns the error and
  leaves the ledger with the binding acquired for the first request.
\<close>

theorem Allocate_failing_call_changes_ledger:
  "Allocate (node_flags DeviceListStrategyEnvvar) (ledger_ops no_reconcile) node_stat node_store
     library_devices None (\<lambda>_. ''u'')
     (node_plugin ''none'' (Some (node_ledger [([''GPU-b-1''], [''GPU-b-1''])])))
     [\<lparr> DevicesIDs = [''GPU-a-0''] \<rparr>, \<lparr> DevicesIDs = [''GPU-a-1'', ''GPU-b-0'', ''GPU-b-1''] \<rparr>]
   = (Inl (Err ''no enough devices''),
      Some (node_ledger [([''GPU-b-1''], [''GPU-b-1'']), ([''GPU-a-0''], [''GPU-a-0''])]))
   \<and> node_ledger [([''GPU-b-1''], [''GPU-b-1'']), ([''GPU-a-0''], [''GPU-a-0''])]
       \<noteq> node_ledger [([''GPU-b-1''], [''GPU-b-1''])]
   \<and> ledger_available
        (ledger_release [''GPU-a-1'', ''GPU-b-0'', ''GPU-b-1'']
           (node_ledger [([''GPU-b-1''], [''GPU-b-1'']), ([''GPU-a-0''], [''GPU-a-0''])]))
       = [''GPU-a-1'', ''GPU-b-0'']"
  by (simp add: node_eval)

text \<open>
  C1, amended. Monitor mode is off. When the call with the container requests \<open>pre\<close>
  alone succeeds and leaves the controller \<open>l\<close>, and the controller, once the
  binding under the identifiers of the next request is released, reports fewer
  available identifiers than that request holds, then the call with \<open>pre\<close>, that
  request and any further requests returns the error \<open>no enough devices\<close>. The
  controller it leaves is \<open>l\<close> with that release applied: the update from the
  checkpoint, what the earlier requests released and acquired, and the release for the
  failing request all stay; nothing is acquired for the failing request.
\<close>

theorem Allocate_insufficient_devices:
  assumes mode: "migStrategy m \<noteq> ''mixed''"
    and ctrl: "vDeviceController m = Some l0"
    and pre: "Allocate cfg ops stat h NewDevicesFrom None newUUID m pre = (Inr rs, Some l)"
    and short: "length (available ops (releaseByRequest ops (DevicesIDs req) l))
                  < length (DevicesIDs req)"
  shows "Allocate cfg ops stat h NewDevicesFrom None newUUID m (pre @ req # rest)
           = (Inl (Err ''no enough devices''), Some (releaseByRequest ops (DevicesIDs req) l))"
proof -
  obtain e l1 where upd: "updateFromCheckpoint ops l0 = (e, l1)"
    by (cases "updateFromCheckpoint ops l0")
  have e: "e = None"
    using pre mode ctrl upd
    by (cases e) (simp_all add: Allocate_def monitor_targetpod_def)
  have loop: "Allocate_loop cfg ops stat h NewDevicesFrom None newUUID m pre 0 0 (Some l1) []
                = (Inr rs, Some l)"
    using pre mode ctrl upd e by (simp add: Allocate_def monitor_targetpod_def)
  have "Allocate cfg ops stat h NewDevicesFrom None newUUID m (pre @ req # rest)
          = Allocate_loop cfg ops stat h NewDevicesFrom None newUUID m (pre @ req # rest) 0 0
              (Some l1) []"
    using mode ctrl upd e by (simp add: Allocate_def monitor_targetpod_def)
  also have "\<dots> = Allocate_loop cfg ops stat h NewDevicesFrom None newUUID m (req # rest)
                     (length pre) 0 (Some l) rs"
    by (simp add: Allocate_loop_append loop)
  also have "\<dots> = (Inl (Err ''no enough devices''), Some (releaseByRequest ops (DevicesIDs req) l))"
    by (simp add: Allocate_container_short [OF short])
  finally show ?thesis .
qed

theorem Allocate_insufficient_devices_witness:
  "Allocate (node_flags DeviceListStrategyEnvvar) (ledger_ops no_reconcile) node_stat node_store
     library_devices None (\<lambda>_. ''u'')
     (node_plugin ''none'' (Some (node_ledger [([''GPU-b-1''], [''GPU-b-1''])])))
     ([\<lparr> DevicesIDs = [''GPU-a-0''] \<rparr>] @ \<lparr> DevicesIDs = [''GPU-a-1'', ''GPU-b-0'', ''GPU-b-1''] \<rparr> # [])
   = (Inl (Err ''no enough devices''),
      Some (releaseByRequest (ledger_ops no_reconcile) [''GPU-a-1'', ''GPU-b-0'', ''GPU-b-1'']
              (node_ledger [([''GPU-b-1''], [''GPU-b-1'']), ([''GPU-a-0''], [''GPU-a-0''])])))"
proof -
  let ?before = "node_ledger [([''GPU-b-1''], [''GPU-b-1''])]"
  let ?after = "node_ledger [([''GPU-b-1''], [''GPU-b-1'']), ([''GPU-a-0''], [''GPU-a-0''])]"
  let ?m = "node_plugin ''none'' (Some ?before)"
  let ?req = "\<lparr> DevicesIDs = [''GPU-a-1'', ''GPU-b-0'', ''GPU-b-1''] \<rparr>"
  let ?pre = "Allocate (node_flags DeviceListStrategyEnvvar) (ledger_ops no_reconcile) node_stat
                node_store library_devices None (\<lambda>_. ''u'') ?m [\<lparr> DevicesIDs = [''GPU-a-0''] \<rparr>]"
  have ok: "\<not> isl (fst ?pre)" and ctl: "snd ?pre = Some ?after"
    by (simp_all add: node_eval)
  obtain rs where pre: "?pre = (Inr rs, Some ?after)"
    using ok ctl by (cases ?pre; cases "fst ?pre") auto
  have mode: "migStrategy ?m \<noteq> ''mixed''" and ctrl: "vDeviceController ?m = Some ?before"
    by (simp_all add: node_plugin_def)
  have short: "length (available (ledger_ops no_reconcile)
                  (releaseByRequest (ledger_ops no_reconcile) (DevicesIDs ?req) ?after))
                < length (DevicesIDs ?req)"
    by (simp add: ledger_ops_def ledger_release_def ledger_available_def node_ledger_def
        node_vdevices_def)
  show ?thesis
    using Allocate_insufficient_devices [OF mode ctrl pre short, of "[]"] by simp
qed

subsection \<open>The same request twice\<close>















subsection \<open>Mounts and the environment variable under \<open>volume-mounts\<close>\<close>



lemma device_mount_clean:
  "list_all clean_relative ids \<Longrightarrow>
     map (ContainerPath \<circ> device_mount) ids
       = map (\<lambda>d. deviceListAsVolumeMountsContainerPathRoot @ ''/'' @ d) ids"
  by (induction ids) (simp_all add: device_mount_def Join_under_mount_root)











end
